theory Spec2Isabelle
  imports Main "HOL-Library.Sublist"
begin

section \<open>vue-component-docgen: the rendering pipeline of \<open>src/index.js\<close>\<close>

text \<open>
  The program walks a directory of Vue components, asks \<open>vue-docgen-api\<close> for the
  description of each one, and writes one page per component plus an index page, in HTML
  or in Markdown.  This theory embeds the functions of \<open>src/index.js\<close> as HOL functions
  and proves what the specification says about them.

  \<^bold>\<open>Strings.\<close>  A JavaScript string is modelled by the bytes of its UTF-8 encoding (type
  \<open>string\<close>), which is what \<open>writeFile(..., 'utf8')\<close> puts on disk.  The program only
  concatenates strings, tests them for emptiness and replaces single ASCII characters;
  on well-formed text each of these commutes with the encoding, because no byte of a
  multi-byte UTF-8 sequence is an ASCII byte.  The Chinese literals of the source are
  given by their bytes, with their code points beside them.

  \<^bold>\<open>Optional fields.\<close>  A field that may be \<open>undefined\<close> is an \<open>option\<close>.  The fields
  of a document have the types of section 3 of the specification, and those of the
  override file the types of its section 6: text is a string, a list is a list, and the
  elements of a list are there.

  \<^bold>\<open>Outside world.\<close>  The parser of \<open>vue-docgen-api\<close>, the file system and \<open>JSON.parse\<close>
  are not code of the program: what they return is an input of the model, and what the
  program prints and writes is a list of effects, in order.
\<close>

subsection \<open>JavaScript idioms\<close>

text \<open>\<open>if (v)\<close> for an optional string: \<open>undefined\<close> and \<open>''\<close> are falsy.\<close>

definition truthy :: "string option \<Rightarrow> bool" where
  "truthy v = (case v of None \<Rightarrow> False | Some s \<Rightarrow> s \<noteq> [])"

text \<open>\<open>v || d\<close> for an optional string \<open>v\<close>.\<close>

definition or_else :: "string option \<Rightarrow> string \<Rightarrow> string" where
  "or_else v d = (case v of None \<Rightarrow> d | Some s \<Rightarrow> if s = [] then d else s)"

text \<open>\<open>`${v}`\<close> for an optional string: \<open>undefined\<close> prints as the word.\<close>

definition interpolate :: "string option \<Rightarrow> string" where
  "interpolate v = (case v of None \<Rightarrow> ''undefined'' | Some s \<Rightarrow> s)"

text \<open>\<open>Array.prototype.join\<close> on strings.\<close>

fun join :: "string \<Rightarrow> string list \<Rightarrow> string" where
  "join sep [] = []"
| "join sep [x] = x"
| "join sep (x # y # ys) = x @ sep @ join sep (y # ys)"

text \<open>\<open>str.replace(/c/g, r)\<close> for a single character \<open>c\<close>: every occurrence, left to right.\<close>

primrec replace_char :: "char \<Rightarrow> string \<Rightarrow> string \<Rightarrow> string" where
  "replace_char c r [] = []"
| "replace_char c r (x # xs) = (if x = c then r else [x]) @ replace_char c r xs"

text \<open>\<open>`${n}`\<close> for a natural number: its decimal digits.\<close>

fun show_nat :: "nat \<Rightarrow> string" where
  "show_nat n =
     (if n < 10 then [''0123456789'' ! n]
      else show_nat (n div 10) @ [''0123456789'' ! (n mod 10)])"

declare show_nat.simps [simp del]

text \<open>The one exception the renderers can raise: reading a property of \<open>undefined\<close>.\<close>

datatype error = TypeError

subsection \<open>The component document\<close>

text \<open>
  A type descriptor: \<open>{name, elements}\<close>, where \<open>elements\<close> holds the members of a union.
\<close>

datatype paramType =
  ParamType (pt_name: "string option") (pt_elements: "paramType list option")

record example =
  ex_title :: "string option"
  ex_content :: "string option"

record tagsObj =
  examples :: "example list option"

record defaultValueObj =
  dv_value :: string

record propDesc =
  prop_name :: string
  prop_type :: "paramType option"
  prop_defaultValue :: "defaultValueObj option"
  prop_description :: "string option"

record blockTag =
  tag_title :: string
  tag_description :: "string option"

record exposeItem =
  expose_name :: string
  expose_tags :: "blockTag list option"
  expose_description :: "string option"

record eventType =
  et_names :: "string list option"

record eventProperty =
  ep_name :: string
  ep_type :: "eventType option"
  ep_description :: "string option"

record eventDesc =
  event_name :: "string option"
  event_properties :: "eventProperty list option"
  event_description :: "string option"

record slotDesc =
  slot_name :: string
  slot_description :: "string option"

text \<open>
  \<open>props\<close> and \<open>slots\<close> are objects keyed by name; they are kept as the list of their
  entries in enumeration order, so that \<open>Object.values\<close> is \<open>map snd\<close> and
  \<open>Object.keys(o).length > 0\<close> says the list is not empty.
\<close>

record componentDoc =
  displayName :: "string option"
  description :: "string option"
  tags :: "tagsObj option"
  props :: "(string \<times> propDesc) list option"
  expose :: "exposeItem list option"
  events :: "eventDesc list option"
  slots :: "(string \<times> slotDesc) list option"

subsection \<open>Formatting helpers (lines 135 to 197)\<close>

text \<open>
  \<open>formatType(type, isMarkdown)\<close>.  \<open>formatType_desc\<close> is the function on a descriptor that
  is there; \<open>formatType\<close> adds the caller's case \<open>prop.type === undefined\<close>, where reading
  \<open>type.name\<close> raises.
\<close>

fun formatType_desc :: "paramType \<Rightarrow> bool \<Rightarrow> string" where
  "formatType_desc (ParamType name None) isMarkdown = or_else name []"
| "formatType_desc (ParamType name (Some elements)) isMarkdown =
     (if name = Some ''union'' \<and> elements \<noteq> []
      then join (if isMarkdown then '' '' @ [CHR 0x5C] @ ''| '' else '' | '')
             (map (\<lambda>element. formatType_desc element isMarkdown) elements)
      else or_else name [])"

definition formatType :: "paramType option \<Rightarrow> bool \<Rightarrow> error + string" where
  "formatType type isMarkdown =
     (case type of None \<Rightarrow> Inl TypeError | Some t \<Rightarrow> Inr (formatType_desc t isMarkdown))"

text \<open>\<open>getExposeType(exposeItem)\<close>; the result is \<open>undefined\<close> when the tag has no description.\<close>

definition getExposeType :: "exposeItem \<Rightarrow> string option" where
  "getExposeType exposeItem =
     (case expose_tags exposeItem of
        None \<Rightarrow> Some ''-''
      | Some ts \<Rightarrow>
          if ts = [] then Some ''-''
          else (case find (\<lambda>tag. tag_title tag = ''type'') ts of
                  Some typeTag \<Rightarrow> tag_description typeTag
                | None \<Rightarrow> Some ''-''))"

text \<open>\<open>escapeHtml(str)\<close>: five passes over the string, \<open>&\<close> first.\<close>

definition escapeHtml :: "string \<Rightarrow> string" where
  \<open>escapeHtml str =
     replace_char (CHR 0x27) ''&#039;''
       (replace_char (CHR 0x22) ''&quot;''
          (replace_char (CHR ''>'') ''&gt;''
             (replace_char (CHR ''<'') ''&lt;''
                (replace_char (CHR ''&'') ''&amp;'' str))))\<close>

text \<open>\<open>formatEventParams(properties, isMarkdown)\<close>.\<close>

definition formatEventParam :: "bool \<Rightarrow> eventProperty \<Rightarrow> string" where
  \<open>formatEventParam isMarkdown p =
     (let type = (case ep_type p of
                    None \<Rightarrow> ''-''
                  | Some t \<Rightarrow>
                      (case et_names t of
                         None \<Rightarrow> ''-''
                       | Some ns \<Rightarrow>
                           if ns = [] then ''-''
                           else if isMarkdown then join ('' '' @ [CHR 0x5C] @ ''| '') ns
                           else join '' | '' ns));
          typeDisplay = (if isMarkdown then ''`'' @ type @ ''`''
                         else ''<code>'' @ type @ ''</code>'');
          desc = (if truthy (ep_description p) then '' - '' @ the (ep_description p) else [])
      in ep_name p @ '': '' @ typeDisplay @ desc)\<close>

definition formatEventParams :: "eventProperty list option \<Rightarrow> bool \<Rightarrow> string" where
  \<open>formatEventParams properties isMarkdown =
     (case properties of
        None \<Rightarrow> ''-''
      | Some ps \<Rightarrow>
          if ps = [] then ''-''
          else join (if isMarkdown then ''<br>'' else '', '')
                 (map (formatEventParam isMarkdown) ps))\<close>

subsection \<open>The text of the source that is not ASCII\<close>

text \<open>Line 209: component description (U+7EC4 U+4EF6 U+63CF U+8FF0).\<close>

definition zh_component_description :: string where
  \<open>zh_component_description = [CHR 0xE7, CHR 0xBB, CHR 0x84, CHR 0xE4, CHR 0xBB, CHR 0xB6, CHR 0xE6, CHR 0x8F, CHR 0x8F, CHR 0xE8, CHR 0xBF, CHR 0xB0]\<close>

text \<open>Line 214: component examples (U+7EC4 U+4EF6 U+793A U+4F8B).\<close>

definition zh_component_examples :: string where
  \<open>zh_component_examples = [CHR 0xE7, CHR 0xBB, CHR 0x84, CHR 0xE4, CHR 0xBB, CHR 0xB6, CHR 0xE7, CHR 0xA4, CHR 0xBA, CHR 0xE4, CHR 0xBE, CHR 0x8B]\<close>

text \<open>Line 217: example (U+793A U+4F8B).\<close>

definition zh_example :: string where
  \<open>zh_example = [CHR 0xE7, CHR 0xA4, CHR 0xBA, CHR 0xE4, CHR 0xBE, CHR 0x8B]\<close>

text \<open>Line 229: name (U+540D U+79F0).\<close>

definition zh_name :: string where
  \<open>zh_name = [CHR 0xE5, CHR 0x90, CHR 0x8D, CHR 0xE7, CHR 0xA7, CHR 0xB0]\<close>

text \<open>Line 229: type (U+7C7B U+578B).\<close>

definition zh_type :: string where
  \<open>zh_type = [CHR 0xE7, CHR 0xB1, CHR 0xBB, CHR 0xE5, CHR 0x9E, CHR 0x8B]\<close>

text \<open>Line 229: default value (U+9ED8 U+8BA4 U+503C).\<close>

definition zh_default_value :: string where
  \<open>zh_default_value = [CHR 0xE9, CHR 0xBB, CHR 0x98, CHR 0xE8, CHR 0xAE, CHR 0xA4, CHR 0xE5, CHR 0x80, CHR 0xBC]\<close>

text \<open>Line 229: description (U+63CF U+8FF0).\<close>

definition zh_description :: string where
  \<open>zh_description = [CHR 0xE6, CHR 0x8F, CHR 0x8F, CHR 0xE8, CHR 0xBF, CHR 0xB0]\<close>

text \<open>Line 250: exposed methods and properties (U+66B4 U+9732 U+7684 U+65B9 U+6CD5 U+548C U+5C5E U+6027).\<close>

definition zh_exposed_members :: string where
  \<open>zh_exposed_members = [CHR 0xE6, CHR 0x9A, CHR 0xB4, CHR 0xE9, CHR 0x9C, CHR 0xB2, CHR 0xE7, CHR 0x9A, CHR 0x84, CHR 0xE6, CHR 0x96, CHR 0xB9, CHR 0xE6, CHR 0xB3, CHR 0x95, CHR 0xE5, CHR 0x92, CHR 0x8C, CHR 0xE5, CHR 0xB1, CHR 0x9E, CHR 0xE6, CHR 0x80, CHR 0xA7]\<close>

text \<open>Line 265: parameters (U+53C2 U+6570).\<close>

definition zh_parameters :: string where
  \<open>zh_parameters = [CHR 0xE5, CHR 0x8F, CHR 0x82, CHR 0xE6, CHR 0x95, CHR 0xB0]\<close>

text \<open>Line 524: component list (U+7EC4 U+4EF6 U+5217 U+8868).\<close>

definition zh_component_list :: string where
  \<open>zh_component_list = [CHR 0xE7, CHR 0xBB, CHR 0x84, CHR 0xE4, CHR 0xBB, CHR 0xB6, CHR 0xE5, CHR 0x88, CHR 0x97, CHR 0xE8, CHR 0xA1, CHR 0xA8]\<close>

text \<open>Line 325: leftwards arrow, back to the component list (U+2190 U+0020 U+8FD4 U+56DE U+7EC4 U+4EF6 U+5217 U+8868).\<close>

definition zh_back_to_list :: string where
  \<open>zh_back_to_list = [CHR 0xE2, CHR 0x86, CHR 0x90] @ '' '' @ [CHR 0xE8, CHR 0xBF, CHR 0x94, CHR 0xE5, CHR 0x9B, CHR 0x9E, CHR 0xE7, CHR 0xBB, CHR 0x84, CHR 0xE4, CHR 0xBB, CHR 0xB6, CHR 0xE5, CHR 0x88, CHR 0x97, CHR 0xE8, CHR 0xA1, CHR 0xA8]\<close>


subsection \<open>Loops\<close>

text \<open>
  \<open>xs.forEach((x, index) => ...)\<close> where the body updates one variable: the variable is
  passed through the calls.  \<open>forEach_try\<close> is the same loop for a body that can raise:
  the first exception ends it.
\<close>

primrec forEach_from :: "nat \<Rightarrow> ('a \<Rightarrow> nat \<Rightarrow> 's \<Rightarrow> 's) \<Rightarrow> 'a list \<Rightarrow> 's \<Rightarrow> 's" where
  "forEach_from index body [] s = s"
| "forEach_from index body (x # xs) s = forEach_from (Suc index) body xs (body x index s)"

definition forEach :: "('a \<Rightarrow> nat \<Rightarrow> 's \<Rightarrow> 's) \<Rightarrow> 'a list \<Rightarrow> 's \<Rightarrow> 's" where
  "forEach body xs s = forEach_from 0 body xs s"

primrec forEach_try :: "('a \<Rightarrow> 's \<Rightarrow> error + 's) \<Rightarrow> 'a list \<Rightarrow> 's \<Rightarrow> error + 's" where
  "forEach_try body [] s = Inr s"
| "forEach_try body (x # xs) s =
     (case body x s of Inl e \<Rightarrow> Inl e | Inr s' \<Rightarrow> forEach_try body xs s')"

subsection \<open>The Markdown renderer (lines 204 to 289)\<close>

text \<open>The body of the loop over the examples (lines 215 to 223).\<close>

definition md_example :: "example \<Rightarrow> nat \<Rightarrow> string \<Rightarrow> string" where
  \<open>md_example example index mdContent =
     (let title = or_else (ex_title example) (zh_example @ '' '' @ show_nat (index + 1));
          mdContent = mdContent @ ''### '' @ title @ ''\<newline>\<newline>'';
          mdContent = mdContent @ ''```html\<newline>'';
          mdContent = mdContent @ or_else (ex_content example) [];
          mdContent = mdContent @ ''\<newline>```\<newline>\<newline>''
      in mdContent)\<close>

text \<open>The default cell of a prop (lines 239 to 241).\<close>

definition md_defaultValue :: "propDesc \<Rightarrow> string" where
  \<open>md_defaultValue p =
     (case prop_defaultValue p of
        Some dv \<Rightarrow> ''`'' @ replace_char (CHR ''`'') [CHR 0x5C, CHR ''`''] (dv_value dv) @ ''`''
      | None \<Rightarrow> ''-'')\<close>

text \<open>The body of the loop over the props (lines 232 to 244).\<close>

definition md_prop :: "propDesc \<Rightarrow> string \<Rightarrow> error + string" where
  \<open>md_prop p mdContent =
     (case formatType (prop_type p) True of
        Inl e \<Rightarrow> Inl e
      | Inr formattedType \<Rightarrow>
          (let typeDisplay = ''`'' @ formattedType @ ''`'';
               defaultValue = md_defaultValue p
           in Inr (mdContent @ ''| '' @ prop_name p @ '' | '' @ typeDisplay @ '' | '' @
                   defaultValue @ '' | '' @ or_else (prop_description p) ''-'' @ '' |\<newline>'')))\<close>

text \<open>The body of the loop over the exposed members (lines 254 to 258).\<close>

definition md_expose :: "exposeItem \<Rightarrow> nat \<Rightarrow> string \<Rightarrow> string" where
  \<open>md_expose item index mdContent =
     (let type = getExposeType item;
          typeDisplay = (if truthy type then ''`'' @ the type @ ''`'' else ''-'')
      in mdContent @ ''| '' @ expose_name item @ '' | '' @ typeDisplay @ '' | '' @
         or_else (expose_description item) ''-'' @ '' |\<newline>'')\<close>

text \<open>The body of the loop over the events (lines 268 to 272).\<close>

definition md_event :: "eventDesc \<Rightarrow> nat \<Rightarrow> string \<Rightarrow> string" where
  \<open>md_event event index mdContent =
     (let params = formatEventParams (event_properties event) True
      in mdContent @ ''| '' @ or_else (event_name event) ''-'' @ '' | '' @ params @ '' | '' @
         or_else (event_description event) ''-'' @ '' |\<newline>'')\<close>

text \<open>The body of the loop over the slots (lines 282 to 284).\<close>

definition md_slot :: "slotDesc \<Rightarrow> nat \<Rightarrow> string \<Rightarrow> string" where
  \<open>md_slot slot index mdContent =
     mdContent @ ''| '' @ slot_name slot @ '' | '' @ or_else (slot_description slot) ''-'' @
     '' |\<newline>''\<close>

text \<open>
  The statements of \<open>generateComponentMarkdown\<close>, one function per \<open>if\<close> block of the
  source, each taking \<open>mdContent\<close> and returning it updated.
\<close>

definition md_description_section :: "componentDoc \<Rightarrow> string \<Rightarrow> string" where
  \<open>md_description_section docData mdContent =
     (if truthy (description docData)
      then mdContent @ ''## '' @ zh_component_description @ ''\<newline>'' @
           the (description docData) @ ''\<newline>\<newline>''
      else mdContent)\<close>

definition md_examples_section :: "componentDoc \<Rightarrow> string \<Rightarrow> string" where
  \<open>md_examples_section docData mdContent =
     (case tags docData of
        None \<Rightarrow> mdContent
      | Some t \<Rightarrow>
          (case examples t of
             None \<Rightarrow> mdContent
           | Some exs \<Rightarrow>
               if length exs > 0
               then forEach md_example exs
                      (mdContent @ ''## '' @ zh_component_examples @ ''\<newline>\<newline>'')
               else mdContent))\<close>

definition md_props_section :: "componentDoc \<Rightarrow> string \<Rightarrow> error + string" where
  \<open>md_props_section docData mdContent =
     (case props docData of
        None \<Rightarrow> Inr mdContent
      | Some ps \<Rightarrow>
          if length (map fst ps) > 0
          then (let mdContent = mdContent @ ''## Props\<newline>\<newline>'';
                    mdContent = mdContent @ ''| '' @ zh_name @ '' | '' @ zh_type @ '' | '' @
                                zh_default_value @ '' | '' @ zh_description @ '' |\<newline>'';
                    mdContent = mdContent @ ''|------|------|--------|------|\<newline>''
                in case forEach_try md_prop (map snd ps) mdContent of
                     Inl e \<Rightarrow> Inl e
                   | Inr mdContent \<Rightarrow> Inr (mdContent @ ''\<newline>''))
          else Inr mdContent)\<close>

definition md_expose_section :: "componentDoc \<Rightarrow> string \<Rightarrow> string" where
  \<open>md_expose_section docData mdContent =
     (case expose docData of
        None \<Rightarrow> mdContent
      | Some items \<Rightarrow>
          if length items > 0
          then (let mdContent = mdContent @ ''## Expose ('' @ zh_exposed_members @ '')\<newline>\<newline>'';
                    mdContent = mdContent @ ''| '' @ zh_name @ '' | '' @ zh_type @ '' | '' @
                                zh_description @ '' |\<newline>'';
                    mdContent = mdContent @ ''|------|------|------|\<newline>'';
                    mdContent = forEach md_expose items mdContent
                in mdContent @ ''\<newline>'')
          else mdContent)\<close>

definition md_events_section :: "componentDoc \<Rightarrow> string \<Rightarrow> string" where
  \<open>md_events_section docData mdContent =
     (case events docData of
        None \<Rightarrow> mdContent
      | Some evs \<Rightarrow>
          if length evs > 0
          then (let mdContent = mdContent @ ''## Events\<newline>\<newline>'';
                    mdContent = mdContent @ ''| '' @ zh_name @ '' | '' @ zh_parameters @ '' | '' @
                                zh_description @ '' |\<newline>'';
                    mdContent = mdContent @ ''|------|------|------|\<newline>'';
                    mdContent = forEach md_event evs mdContent
                in mdContent @ ''\<newline>'')
          else mdContent)\<close>

definition md_slots_section :: "componentDoc \<Rightarrow> string \<Rightarrow> string" where
  \<open>md_slots_section docData mdContent =
     (case slots docData of
        None \<Rightarrow> mdContent
      | Some ss \<Rightarrow>
          if length (map fst ss) > 0
          then (let mdContent = mdContent @ ''## Slots\<newline>\<newline>'';
                    mdContent = mdContent @ ''| '' @ zh_name @ '' | '' @ zh_description @
                                '' |\<newline>'';
                    mdContent = mdContent @ ''|------|------|\<newline>'';
                    mdContent = forEach md_slot (map snd ss) mdContent
                in mdContent @ ''\<newline>'')
          else mdContent)\<close>

text \<open>\<open>generateComponentMarkdown(docData)\<close>.\<close>

definition generateComponentMarkdown :: "componentDoc \<Rightarrow> error + string" where
  \<open>generateComponentMarkdown docData =
     (let mdContent = ''# '' @ interpolate (displayName docData) @ ''\<newline>\<newline>'';
          mdContent = md_description_section docData mdContent;
          mdContent = md_examples_section docData mdContent
      in case md_props_section docData mdContent of
           Inl e \<Rightarrow> Inl e
         | Inr mdContent \<Rightarrow>
             (let mdContent = md_expose_section docData mdContent;
                  mdContent = md_events_section docData mdContent;
                  mdContent = md_slots_section docData mdContent
              in Inr mdContent))\<close>

subsection \<open>The HTML renderer (lines 298 to 448)\<close>

text \<open>The page up to the title (lines 299 to 304).\<close>

definition html_head_open :: string where
  \<open>html_head_open =
     ''<!DOCTYPE html>\<newline>'' @
     ''<html lang="en">\<newline>'' @
     ''<head>\<newline>'' @
     ''    <meta charset="UTF-8">\<newline>'' @
     ''    <meta name="viewport" content="width=device-width, initial-scale=1.0">\<newline>'' @
     ''    <title>''\<close>

text \<open>From the end of the title to the page heading (lines 304 to 326).\<close>

definition html_head_style :: string where
  \<open>html_head_style =
     ''</title>\<newline>'' @
     ''    <style>\<newline>'' @
     ''        body { font-family: Arial, sans-serif; max-width: 800px; margin: 0 auto; padding: 20px; }\<newline>'' @
     ''        h1 { color: #2c3e50; border-bottom: 2px solid #3498db; padding-bottom: 10px; }\<newline>'' @
     ''        h2 { color: #3498db; margin-top: 30px; }\<newline>'' @
     ''        h3 { color: #2c3e50; margin-top: 20px; }\<newline>'' @
     ''        .description { font-size: 1.1em; line-height: 1.6; margin: 20px 0; padding: 15px; background-color: #f8f9fa; border-left: 4px solid #3498db; }\<newline>'' @
     ''        .example-container { margin: 20px 0; }\<newline>'' @
     ''        .example-title { font-weight: bold; margin-bottom: 10px; }\<newline>'' @
     ''        .code-block { font-family: monospace; background-color: #f8f9fa; padding: 15px; border-radius: 4px; overflow-x: auto; font-size: 0.9em; }\<newline>'' @
     ''        table { width: 100%; border-collapse: collapse; margin: 16px 0; }\<newline>'' @
     ''        td, th { padding: 12px 8px; text-align: left; border: 1px solid #ddd; }\<newline>'' @
     ''        th { background-color: #f2f2f2; font-weight: bold; }\<newline>'' @
     ''        tr:nth-child(even) { background-color: #f9f9f9; }\<newline>'' @
     ''        .back-link { margin-bottom: 20px; display: inline-block; }\<newline>'' @
     ''        code { background-color: #f0f0f0; padding: 2px 4px; border-radius: 3px; }\<newline>'' @
     ''        .param-item { margin-bottom: 4px; }\<newline>'' @
     ''        .param-item:last-child { margin-bottom: 0; }\<newline>'' @
     ''    </style>\<newline>'' @
     ''</head>\<newline>'' @
     ''<body>\<newline>'' @
     ''    <div class="back-link"><a href="index.html">'' @ zh_back_to_list @ ''</a></div>\<newline>'' @
     ''    <h1>''\<close>

text \<open>An example block, up to its title (lines 338 to 340).\<close>

definition html_example_open :: string where
  \<open>html_example_open =
     ''\<newline>'' @
     ''            <div class="example-container">\<newline>'' @
     ''                <h3 class="example-title">''\<close>

text \<open>From the title of an example to its code (lines 340 and 341).\<close>

definition html_example_code :: string where
  \<open>html_example_code =
     ''</h3>\<newline>'' @
     ''                <pre class="code-block"><code>''\<close>

text \<open>The end of an example block (lines 341 and 342).\<close>

definition html_example_close :: string where
  \<open>html_example_close =
     ''</code></pre>\<newline>'' @
     ''            </div>''\<close>

text \<open>The head of the props table (lines 348 to 356).\<close>

definition html_props_header :: string where
  \<open>html_props_header =
     ''\<newline>'' @
     ''        <h2>Props</h2>\<newline>'' @
     ''        <table>\<newline>'' @
     ''            <tr>\<newline>'' @
     ''                <th>'' @ zh_name @ ''</th>\<newline>'' @
     ''                <th>'' @ zh_type @ ''</th>\<newline>'' @
     ''                <th>'' @ zh_default_value @ ''</th>\<newline>'' @
     ''                <th>'' @ zh_description @ ''</th>\<newline>'' @
     ''            </tr>''\<close>

text \<open>The head of the expose table (lines 375 to 382).\<close>

definition html_expose_header :: string where
  \<open>html_expose_header =
     ''\<newline>'' @
     ''        <h2>Expose ('' @ zh_exposed_members @ '')</h2>\<newline>'' @
     ''        <table>\<newline>'' @
     ''            <tr>\<newline>'' @
     ''                <th>'' @ zh_name @ ''</th>\<newline>'' @
     ''                <th>'' @ zh_type @ ''</th>\<newline>'' @
     ''                <th>'' @ zh_description @ ''</th>\<newline>'' @
     ''            </tr>''\<close>

text \<open>The head of the events table (lines 399 to 406).\<close>

definition html_events_header :: string where
  \<open>html_events_header =
     ''\<newline>'' @
     ''        <h2>Events</h2>\<newline>'' @
     ''        <table>\<newline>'' @
     ''            <tr>\<newline>'' @
     ''                <th>'' @ zh_name @ ''</th>\<newline>'' @
     ''                <th>'' @ zh_parameters @ ''</th>\<newline>'' @
     ''                <th>'' @ zh_description @ ''</th>\<newline>'' @
     ''            </tr>''\<close>

text \<open>The head of the slots table (lines 424 to 430).\<close>

definition html_slots_header :: string where
  \<open>html_slots_header =
     ''\<newline>'' @
     ''        <h2>Slots</h2>\<newline>'' @
     ''        <table>\<newline>'' @
     ''            <tr>\<newline>'' @
     ''                <th>'' @ zh_name @ ''</th>\<newline>'' @
     ''                <th>'' @ zh_description @ ''</th>\<newline>'' @
     ''            </tr>''\<close>

text \<open>A table row up to its first cell (as in lines 361 to 363).\<close>

definition html_tr_open :: string where
  \<open>html_tr_open =
     ''\<newline>'' @
     ''            <tr>\<newline>'' @
     ''                <td>''\<close>

text \<open>From one cell of a row to the next (as in lines 363 and 364).\<close>

definition html_td_sep :: string where
  \<open>html_td_sep =
     ''</td>\<newline>'' @
     ''                <td>''\<close>

text \<open>The end of a table row (as in lines 366 and 367).\<close>

definition html_tr_close :: string where
  \<open>html_tr_close =
     ''</td>\<newline>'' @
     ''            </tr>''\<close>

text \<open>The end of the page (lines 443 to 445).\<close>

definition html_tail :: string where
  \<open>html_tail =
     ''\<newline>'' @
     ''</body>\<newline>'' @
     ''</html>''\<close>

text \<open>The body of the loop over the examples (lines 336 to 343).\<close>

definition html_example :: "example \<Rightarrow> nat \<Rightarrow> string \<Rightarrow> string" where
  \<open>html_example example index htmlContent =
     (let title = or_else (ex_title example) (zh_example @ '' '' @ show_nat (index + 1))
      in htmlContent @ html_example_open @ title @ html_example_code @
         escapeHtml (or_else (ex_content example) []) @ html_example_close)\<close>

text \<open>The body of the loop over the props (lines 358 to 368).\<close>

definition html_prop :: "propDesc \<Rightarrow> string \<Rightarrow> error + string" where
  \<open>html_prop p htmlContent =
     (case formatType (prop_type p) False of
        Inl e \<Rightarrow> Inl e
      | Inr formattedType \<Rightarrow>
          Inr (htmlContent @ html_tr_open @ prop_name p @
               html_td_sep @ ''<code>'' @ formattedType @ ''</code>'' @
               html_td_sep @ (case prop_defaultValue p of
                                Some dv \<Rightarrow> ''<code>'' @ dv_value dv @ ''</code>''
                              | None \<Rightarrow> ''-'') @
               html_td_sep @ or_else (prop_description p) ''-'' @ html_tr_close))\<close>

text \<open>The body of the loop over the exposed members (lines 384 to 392).\<close>

definition html_expose :: "exposeItem \<Rightarrow> nat \<Rightarrow> string \<Rightarrow> string" where
  \<open>html_expose item index htmlContent =
     (let type = getExposeType item
      in htmlContent @ html_tr_open @ expose_name item @
         html_td_sep @ (if truthy type then ''<code>'' @ the type @ ''</code>'' else ''-'') @
         html_td_sep @ or_else (expose_description item) ''-'' @ html_tr_close)\<close>

text \<open>The body of the loop over the events (lines 408 to 417).\<close>

definition html_event :: "eventDesc \<Rightarrow> nat \<Rightarrow> string \<Rightarrow> string" where
  \<open>html_event event index htmlContent =
     (let params = formatEventParams (event_properties event) False
      in htmlContent @ html_tr_open @ or_else (event_name event) ''-'' @
         html_td_sep @ params @
         html_td_sep @ or_else (event_description event) ''-'' @ html_tr_close)\<close>

text \<open>The body of the loop over the slots (lines 432 to 438).\<close>

definition html_slot :: "slotDesc \<Rightarrow> nat \<Rightarrow> string \<Rightarrow> string" where
  \<open>html_slot slot index htmlContent =
     htmlContent @ html_tr_open @ slot_name slot @
     html_td_sep @ or_else (slot_description slot) ''-'' @ html_tr_close\<close>

text \<open>
  The statements of \<open>generateComponentHtml\<close>, one function per \<open>if\<close> block of the source,
  each taking \<open>htmlContent\<close> and returning it updated.
\<close>

definition html_description_section :: "componentDoc \<Rightarrow> string \<Rightarrow> string" where
  \<open>html_description_section docData htmlContent =
     (if truthy (description docData)
      then htmlContent @ ''<div class="description">'' @ the (description docData) @ ''</div>''
      else htmlContent)\<close>

definition html_examples_section :: "componentDoc \<Rightarrow> string \<Rightarrow> string" where
  \<open>html_examples_section docData htmlContent =
     (case tags docData of
        None \<Rightarrow> htmlContent
      | Some t \<Rightarrow>
          (case examples t of
             None \<Rightarrow> htmlContent
           | Some exs \<Rightarrow>
               if length exs > 0
               then forEach html_example exs
                      (htmlContent @ ''<h2>'' @ zh_component_examples @ ''</h2>'')
               else htmlContent))\<close>

definition html_props_section :: "componentDoc \<Rightarrow> string \<Rightarrow> error + string" where
  \<open>html_props_section docData htmlContent =
     (case props docData of
        None \<Rightarrow> Inr htmlContent
      | Some ps \<Rightarrow>
          if length (map fst ps) > 0
          then (case forEach_try html_prop (map snd ps) (htmlContent @ html_props_header) of
                  Inl e \<Rightarrow> Inl e
                | Inr htmlContent \<Rightarrow> Inr (htmlContent @ ''</table>''))
          else Inr htmlContent)\<close>

definition html_expose_section :: "componentDoc \<Rightarrow> string \<Rightarrow> string" where
  \<open>html_expose_section docData htmlContent =
     (case expose docData of
        None \<Rightarrow> htmlContent
      | Some items \<Rightarrow>
          if length items > 0
          then forEach html_expose items (htmlContent @ html_expose_header) @ ''</table>''
          else htmlContent)\<close>

definition html_events_section :: "componentDoc \<Rightarrow> string \<Rightarrow> string" where
  \<open>html_events_section docData htmlContent =
     (case events docData of
        None \<Rightarrow> htmlContent
      | Some evs \<Rightarrow>
          if length evs > 0
          then forEach html_event evs (htmlContent @ html_events_header) @ ''</table>''
          else htmlContent)\<close>

definition html_slots_section :: "componentDoc \<Rightarrow> string \<Rightarrow> string" where
  \<open>html_slots_section docData htmlContent =
     (case slots docData of
        None \<Rightarrow> htmlContent
      | Some ss \<Rightarrow>
          if length (map fst ss) > 0
          then forEach html_slot (map snd ss) (htmlContent @ html_slots_header) @ ''</table>''
          else htmlContent)\<close>

text \<open>\<open>generateComponentHtml(docData, docName, componentName)\<close>.\<close>

definition generateComponentHtml :: "componentDoc \<Rightarrow> string \<Rightarrow> string \<Rightarrow> error + string" where
  \<open>generateComponentHtml docData docName componentName =
     (let htmlContent = html_head_open @ componentName @ '' - '' @ docName @ html_head_style @
                        interpolate (displayName docData) @ ''</h1>'';
          htmlContent = html_description_section docData htmlContent;
          htmlContent = html_examples_section docData htmlContent
      in case html_props_section docData htmlContent of
           Inl e \<Rightarrow> Inl e
         | Inr htmlContent \<Rightarrow>
             (let htmlContent = html_expose_section docData htmlContent;
                  htmlContent = html_events_section docData htmlContent;
                  htmlContent = html_slots_section docData htmlContent
              in Inr (htmlContent @ html_tail)))\<close>

subsection \<open>Configuration (lines 14 to 81)\<close>

text \<open>
  The module-level object \<open>config\<close>, with its fields at the types of section 6 of the
  specification.  \<open>customContent\<close> is an object with string values: a map from keys to
  paths, where a key that is not there reads as \<open>undefined\<close>.
\<close>

record config =
  outDir :: string
  componentsDir :: string
  docName :: string
  docType :: string
  docDescription :: string
  customContent :: "string \<rightharpoonup> string"

definition default_config :: config where
  "default_config =
     \<lparr>outDir = ''dist/component-doc'',
      componentsDir = ''src/components'',
      docName = ''Vue Component API Documentation'',
      docType = ''html'',
      docDescription = [],
      customContent = [''md'' \<mapsto> [], ''html'' \<mapsto> []]\<rparr>"

text \<open>
  The object read from \<open>component.doc.json\<close>: a JSON object that holds some of the keys
  of \<open>config\<close> (any other key it holds is never read).
\<close>

record customConfig =
  c_outDir :: "string option"
  c_componentsDir :: "string option"
  c_docName :: "string option"
  c_docType :: "string option"
  c_docDescription :: "string option"
  c_customContent :: "(string \<rightharpoonup> string) option"

text \<open>
  What \<open>loadConfig\<close> finds at \<open>component.doc.json\<close>: no file; a file that
  \<open>readFileSync\<close> or \<open>JSON.parse\<close> rejects, with the message of the exception; or a JSON
  object.
\<close>

datatype configFile = NoFile | Unparsable string | Parsed customConfig

text \<open>
  Everything the program does to the outside, in the order it does it: one constructor for
  each call site of \<open>console\<close> and of a writing \<open>fs\<close> function in the source, holding
  the values the call interpolates.  A path \<open>path.resolve(dir, name)\<close> is kept as its two
  arguments.  The writing calls are taken to succeed.
\<close>

datatype effect =
    Log_running                       \<comment> \<open>line 451\<close>
  | Warn_docType string               \<comment> \<open>line 50, with the rejected \<open>docType\<close>\<close>
  | Error_loadConfig string           \<comment> \<open>line 55, with \<open>error.message\<close>\<close>
  | Log_config config                 \<comment> \<open>line 457\<close>
  | Mkdir string                      \<comment> \<open>line 111\<close>
  | Log_searching string              \<comment> \<open>line 464, with \<open>componentsDir\<close>\<close>
  | Log_none_found                    \<comment> \<open>line 468\<close>
  | Log_found nat                     \<comment> \<open>line 471, with the number of files\<close>
  | Error_parse string string         \<comment> \<open>line 124, with the file and \<open>error.message\<close>\<close>
  | Log_skip string                   \<comment> \<open>line 480, with the file\<close>
  | WriteFile string string string    \<comment> \<open>lines 503, 537 and 593: directory, file name, content\<close>
  | Log_generated string string       \<comment> \<open>line 504, with the directory and the file name\<close>
  | Log_custom_missing string         \<comment> \<open>line 75, with the path\<close>
  | Error_custom string               \<comment> \<open>line 78, with \<open>error.message\<close>\<close>
  | Log_index_md string               \<comment> \<open>line 538, with the directory\<close>
  | Log_index_html string             \<comment> \<open>line 594, with the directory\<close>
  | Log_done                          \<comment> \<open>line 597\<close>

text \<open>\<open>Object.assign(config, customConfig)\<close>: every key of the override replaces the field.\<close>

definition assign :: "config \<Rightarrow> customConfig \<Rightarrow> config" where
  "assign config customConfig =
     \<lparr>outDir = (case c_outDir customConfig of Some v \<Rightarrow> v | None \<Rightarrow> outDir config),
      componentsDir =
        (case c_componentsDir customConfig of Some v \<Rightarrow> v | None \<Rightarrow> componentsDir config),
      docName = (case c_docName customConfig of Some v \<Rightarrow> v | None \<Rightarrow> docName config),
      docType = (case c_docType customConfig of Some v \<Rightarrow> v | None \<Rightarrow> docType config),
      docDescription =
        (case c_docDescription customConfig of Some v \<Rightarrow> v | None \<Rightarrow> docDescription config),
      customContent =
        (case c_customContent customConfig of Some v \<Rightarrow> v | None \<Rightarrow> customContent config)\<rparr>"

text \<open>
  \<open>loadConfig()\<close>: takes \<open>config\<close> and returns it updated, with what was printed.  The
  spread \<open>{...a, ...b}\<close> of two objects is \<open>a ++ b\<close>.
\<close>

definition loadConfig :: "configFile \<Rightarrow> config \<Rightarrow> config \<times> effect list" where
  "loadConfig file config =
     (case file of
        NoFile \<Rightarrow> (config, [])
      | Unparsable message \<Rightarrow> (config, [Error_loadConfig message])
      | Parsed customConfig \<Rightarrow>
          (let config = assign config customConfig;
               config = (case c_customContent customConfig of
                           Some cc \<Rightarrow> config\<lparr>customContent := customContent config ++ cc\<rparr>
                         | None \<Rightarrow> config)
           in if docType config \<notin> set [''html'', ''md'']
              then (config\<lparr>docType := ''html''\<rparr>, [Warn_docType (docType config)])
              else (config, [])))"

text \<open>
  \<open>readCustomContent()\<close>.  \<open>readFile\<close> tells what is at a path: nothing, a file that
  cannot be read (with the message), or a file with its content.
\<close>

datatype fileRead = FileMissing | ReadFails string | FileContent string

definition readCustomContent :: "(string \<Rightarrow> fileRead) \<Rightarrow> config \<Rightarrow> string \<times> effect list" where
  "readCustomContent readFile config =
     (case customContent config (docType config) of
        None \<Rightarrow> ([], [])
      | Some contentPath \<Rightarrow>
          if contentPath = [] then ([], [])
          else (case readFile contentPath of
                  FileContent s \<Rightarrow> (s, [])
                | FileMissing \<Rightarrow> ([], [Log_custom_missing contentPath])
                | ReadFails message \<Rightarrow> ([], [Error_custom message])))"

text \<open>\<open>ensureDir(dir)\<close>.\<close>

definition ensureDir :: "(string \<Rightarrow> bool) \<Rightarrow> string \<Rightarrow> effect list" where
  "ensureDir dirExists dir = (if dirExists dir then [] else [Mkdir dir])"

text \<open>
  \<open>getComponentDoc(filePath)\<close>.  \<open>parse\<close> is the function of \<open>vue-docgen-api\<close>: it returns a
  document or raises (\<open>Inl\<close>, with the message).
\<close>

definition getComponentDoc ::
  "(string \<Rightarrow> string + componentDoc) \<Rightarrow> string \<Rightarrow> componentDoc option \<times> effect list" where
  "getComponentDoc parse filePath =
     (case parse filePath of
        Inr docData \<Rightarrow> (Some docData, [])
      | Inl message \<Rightarrow> (None, [Error_parse filePath message]))"

subsection \<open>The index page (lines 510 to 595)\<close>

record indexEntry =
  entry_name :: string
  entry_description :: string

text \<open>The index page from the end of its title to its heading (lines 565 to 579).\<close>

definition index_html_style :: string where
  \<open>index_html_style =
     ''</title>\<newline>'' @
     ''    <style>\<newline>'' @
     ''        body { font-family: Arial, sans-serif; max-width: 800px; margin: 0 auto; padding: 20px; }\<newline>'' @
     ''        h1 { color: #2c3e50; }\<newline>'' @
     ''        h2 { color: #3498db; }\<newline>'' @
     ''        .components-list { list-style: none; padding: 0; }\<newline>'' @
     ''        .component-item { margin: 20px 0; padding: 15px; border-radius: 4px; background-color: #f9f9f9; }\<newline>'' @
     ''        .component-link { color: #3498db; text-decoration: none; font-size: 1.2em; font-weight: bold; }\<newline>'' @
     ''        .component-link:hover { text-decoration: underline; }\<newline>'' @
     ''        .component-desc { margin: 8px 0 0 0; color: #555; line-height: 1.5; }\<newline>'' @
     ''        .doc-description { font-size: 1.1em; line-height: 1.6; color: #333; margin: 10px 0 20px 0; }\<newline>'' @
     ''    </style>\<newline>'' @
     ''</head>\<newline>'' @
     ''<body>\<newline>'' @
     ''    <h1>''\<close>

text \<open>After the heading of the index page (lines 579 to 581).\<close>

definition index_html_after_heading :: string where
  \<open>index_html_after_heading =
     ''</h1>\<newline>'' @
     ''    \<newline>'' @
     ''    ''\<close>

text \<open>Between the description and the custom content (lines 581 to 583).\<close>

definition index_html_between :: string where
  \<open>index_html_between =
     ''\<newline>'' @
     ''    \<newline>'' @
     ''    ''\<close>

text \<open>From the custom content to the list of components (lines 583 to 587).\<close>

definition index_html_list_open :: string where
  \<open>index_html_list_open =
     ''\<newline>'' @
     ''    \<newline>'' @
     ''    <h2>'' @ zh_component_list @ ''</h2>\<newline>'' @
     ''    <ul class="components-list">\<newline>'' @
     ''        ''\<close>

text \<open>The end of the index page (lines 587 to 590).\<close>

definition index_html_tail :: string where
  \<open>index_html_tail =
     ''\<newline>'' @
     ''    </ul>\<newline>'' @
     ''</body>\<newline>'' @
     ''</html>''\<close>

text \<open>The body of the loop at lines 526 to 534.\<close>

definition md_index_entry :: "indexEntry \<Rightarrow> nat \<Rightarrow> string \<Rightarrow> string" where
  \<open>md_index_entry component index indexMdContent =
     (let indexMdContent = indexMdContent @ ''- ['' @ entry_name component @ ''](''  @
                           entry_name component @ ''.md)\<newline>''
      in if entry_description component \<noteq> []
         then indexMdContent @ ''  '' @ entry_description component @ ''\<newline>\<newline>''
         else indexMdContent @ ''\<newline>'')\<close>

text \<open>
  The content of \<open>index.md\<close> (lines 512 to 534); \<open>content\<close> is the variable
  \<open>customContent\<close> of line 508.
\<close>

definition indexMarkdown :: "config \<Rightarrow> string \<Rightarrow> indexEntry list \<Rightarrow> string" where
  \<open>indexMarkdown config content components =
     (let indexMdContent = ''# '' @ docName config @ ''\<newline>\<newline>'';
          indexMdContent = (if docDescription config \<noteq> []
                            then indexMdContent @ docDescription config @ ''\<newline>\<newline>''
                            else indexMdContent);
          indexMdContent = (if content \<noteq> []
                            then indexMdContent @ content @ ''\<newline>\<newline>''
                            else indexMdContent);
          indexMdContent = indexMdContent @ ''## '' @ zh_component_list @ ''\<newline>\<newline>''
      in forEach md_index_entry components indexMdContent)\<close>

text \<open>The function mapped over the components at lines 541 to 550.\<close>

definition html_index_item :: "indexEntry \<Rightarrow> string" where
  \<open>html_index_item component =
     (let item = ''<li class="component-item">'';
          item = item @ ''<a href="'' @ entry_name component @ ''.html" class="component-link">'' @
                 entry_name component @ ''</a>'';
          item = (if entry_description component \<noteq> []
                  then item @ ''<p class="component-desc">'' @ entry_description component @ ''</p>''
                  else item)
      in item @ ''</li>'')\<close>

text \<open>The content of \<open>index.html\<close> (lines 541 to 590).\<close>

definition indexHtml :: "config \<Rightarrow> string \<Rightarrow> indexEntry list \<Rightarrow> string" where
  \<open>indexHtml config content components =
     (let componentsList = join ''\<newline>'' (map html_index_item components);
          docDescriptionSection =
            (if docDescription config \<noteq> []
             then ''<p class="doc-description">'' @ docDescription config @ ''</p>''
             else []);
          customContentSection = (if content \<noteq> [] then content else [])
      in html_head_open @ docName config @ index_html_style @ docName config @
         index_html_after_heading @ docDescriptionSection @ index_html_between @
         customContentSection @ index_html_list_open @ componentsList @ index_html_tail)\<close>

subsection \<open>The run (lines 450 to 598)\<close>

text \<open>
  What a run reads from outside: the override file, whether a directory is there, the
  list \<open>findVueFiles\<close> returns for a root (\<open>None\<close> when \<open>readdir\<close> rejects, which nothing
  catches), the parser, and what is at a path.
\<close>

record env =
  env_configFile :: configFile
  env_dirExists :: "string \<Rightarrow> bool"
  env_findVueFiles :: "string \<Rightarrow> string list option"
  env_parse :: "string \<Rightarrow> string + componentDoc"
  env_readFile :: "string \<Rightarrow> fileRead"

text \<open>
  How the asynchronous function ends: at its last line, at the early \<open>return\<close> of line
  469, or with a rejection that nothing handles (the exception of a renderer, or of
  \<open>readdir\<close>).
\<close>

datatype outcome = Completed | NothingFound | Rejected "error option"

text \<open>Puts the effects of what ran first before those of the rest of a loop.\<close>

definition after ::
  "effect list \<Rightarrow> effect list \<times> indexEntry list \<times> error option \<Rightarrow>
   effect list \<times> indexEntry list \<times> error option" where
  "after fx r = (case r of (fx', components, err) \<Rightarrow> (fx @ fx', components, err))"

text \<open>Lines 491 to 501: the name of the page of a component and its content.\<close>

definition component_page :: "config \<Rightarrow> componentDoc \<Rightarrow> string \<Rightarrow> string \<times> (error + string)" where
  \<open>component_page config docData componentName =
     (if docType config = ''md''
      then (componentName @ ''.md'', generateComponentMarkdown docData)
      else (componentName @ ''.html'',
            generateComponentHtml docData (docName config) componentName))\<close>

text \<open>
  The loop of lines 476 to 505 over the files that are left, from the list
  \<open>components\<close> so far: what it does, the list at its end, and the exception that ended
  it, if one did.
\<close>

fun process_files ::
  "(string \<Rightarrow> string + componentDoc) \<Rightarrow> config \<Rightarrow> string list \<Rightarrow> indexEntry list \<Rightarrow>
   effect list \<times> indexEntry list \<times> error option" where
  "process_files parse config [] components = ([], components, None)"
| "process_files parse config (file # rest) components =
     (case getComponentDoc parse file of
        (None, fx) \<Rightarrow>
          after (fx @ [Log_skip file]) (process_files parse config rest components)
      | (Some docData, fx) \<Rightarrow>
          if \<not> truthy (displayName docData)
          then after (fx @ [Log_skip file]) (process_files parse config rest components)
          else
            (let componentName = the (displayName docData);
                 components = components @
                   [\<lparr>entry_name = componentName,
                     entry_description = or_else (description docData) []\<rparr>]
             in case component_page config docData componentName of
                  (outputFile, Inl e) \<Rightarrow> (fx, components, Some e)
                | (outputFile, Inr content) \<Rightarrow>
                    after (fx @ [WriteFile (outDir config) outputFile content,
                                 Log_generated (outDir config) outputFile])
                      (process_files parse config rest components)))"

declare process_files.simps(2) [simp del]

text \<open>Lines 507 to 597: the index page, after the loop.\<close>

definition write_index :: "(string \<Rightarrow> fileRead) \<Rightarrow> config \<Rightarrow> indexEntry list \<Rightarrow> effect list" where
  \<open>write_index readFile config components =
     (case readCustomContent readFile config of
        (content, fx) \<Rightarrow>
          fx @
          (if docType config = ''md''
           then [WriteFile (outDir config) ''index.md''
                   (indexMarkdown config content components),
                 Log_index_md (outDir config)]
           else [WriteFile (outDir config) ''index.html''
                   (indexHtml config content components),
                 Log_index_html (outDir config)]) @
          [Log_done])\<close>

text \<open>Lines 457 to 597: the run once \<open>config\<close> is loaded.\<close>

definition run_with_config :: "env \<Rightarrow> config \<Rightarrow> effect list \<times> outcome" where
  "run_with_config e config =
     (let fx1 = [Log_config config] @ ensureDir (env_dirExists e) (outDir config) @
                [Log_searching (componentsDir config)]
      in case env_findVueFiles e (componentsDir config) of
           None \<Rightarrow> (fx1, Rejected None)
         | Some vueFiles \<Rightarrow>
             if length vueFiles = 0 then (fx1 @ [Log_none_found], NothingFound)
             else
               (case process_files (env_parse e) config vueFiles [] of
                  (fx2, components, Some err) \<Rightarrow>
                    (fx1 @ [Log_found (length vueFiles)] @ fx2, Rejected (Some err))
                | (fx2, components, None) \<Rightarrow>
                    (fx1 @ [Log_found (length vueFiles)] @ fx2 @
                     write_index (env_readFile e) config components, Completed)))"

text \<open>The run: the immediately invoked function of lines 450 to 598.\<close>

definition main :: "env \<Rightarrow> effect list \<times> outcome" where
  "main e =
     (case loadConfig (env_configFile e) default_config of
        (config, fx0) \<Rightarrow>
          (case run_with_config e config of
             (fx, result) \<Rightarrow> ([Log_running] @ fx0 @ fx, result)))"

section \<open>Notions the properties are stated with\<close>

text \<open>
  A text in which \<open>&\<close> only starts one of the five entities \<open>escapeHtml\<close> writes, and
  in which \<open><\<close>, \<open>>\<close>, the double quote and the single quote do not occur.
\<close>

fun escaped :: "string \<Rightarrow> bool" where
  "escaped [] = True"
| "escaped (c # cs) =
     (if c = CHR ''&''
      then (if prefix ''amp;'' cs then escaped (drop 4 cs)
            else if prefix ''lt;'' cs then escaped (drop 3 cs)
            else if prefix ''gt;'' cs then escaped (drop 3 cs)
            else if prefix ''quot;'' cs then escaped (drop 5 cs)
            else if prefix ''#039;'' cs then escaped (drop 5 cs)
            else False)
      else c \<notin> set [CHR ''<'', CHR ''>'', CHR 0x22, CHR 0x27] \<and> escaped cs)"

text \<open>What \<open>escapeHtml\<close> writes for one character.\<close>

definition escape_char :: "char \<Rightarrow> string" where
  "escape_char c =
     (if c = CHR ''&'' then ''&amp;''
      else if c = CHR ''<'' then ''&lt;''
      else if c = CHR ''>'' then ''&gt;''
      else if c = CHR 0x22 then ''&quot;''
      else if c = CHR 0x27 then ''&#039;''
      else [c])"

text \<open>
  A document used to run the properties on: a component with a description that holds
  markup, one example, one prop with a union type and a default value, one exposed
  member, one event and one slot.
\<close>

definition sample_doc :: componentDoc where
  \<open>sample_doc =
     \<lparr>displayName = Some ''Button'',
      description = Some ''A <b>button</b>'',
      tags = Some \<lparr>examples = Some
        [\<lparr>ex_title = None, ex_content = Some ''<Button a="1">T&C</Button>''\<rparr>]\<rparr>,
      props = Some
        [(''variant'',
          \<lparr>prop_name = ''variant'',
           prop_type = Some (ParamType (Some ''union'')
             (Some [ParamType (Some ''primary'') None, ParamType (Some ''secondary'') None])),
           prop_defaultValue = Some \<lparr>dv_value = ''primary''\<rparr>,
           prop_description = Some ''The <i>look</i>''\<rparr>)],
      expose = Some
        [\<lparr>expose_name = ''focus'',
          expose_tags = Some [\<lparr>tag_title = ''type'', tag_description = Some ''Function''\<rparr>],
          expose_description = None\<rparr>],
      events = Some
        [\<lparr>event_name = Some ''click'',
          event_properties = Some
            [\<lparr>ep_name = ''e'', ep_type = Some \<lparr>et_names = Some [''MouseEvent'']\<rparr>,
              ep_description = None\<rparr>],
          event_description = Some ''Fired on <em>click</em>''\<rparr>],
      slots = Some
        [(''default'', \<lparr>slot_name = ''default'', slot_description = Some ''The "label"''\<rparr>)]\<rparr>\<close>






text \<open>A prop of type \<open>string\<close> with the default value \<open>v\<close>, to run the properties on.\<close>

definition prop_with_default :: "string \<Rightarrow> propDesc" where
  "prop_with_default v =
     \<lparr>prop_name = ''size'',
      prop_type = Some (ParamType (Some ''string'') None),
      prop_defaultValue = Some \<lparr>dv_value = v\<rparr>,
      prop_description = None\<rparr>"

text \<open>
  The condition of line 479 on a file: \<open>parse\<close> raises, or the document it returns has no
  display name.
\<close>

definition skipped :: "(string \<Rightarrow> string + componentDoc) \<Rightarrow> string \<Rightarrow> bool" where
  "skipped parse file =
     (case parse file of Inl message \<Rightarrow> True | Inr docData \<Rightarrow> \<not> truthy (displayName docData))"

text \<open>The entry of the index for a file, when the file is not skipped.\<close>

definition index_entry_of :: "(string \<Rightarrow> string + componentDoc) \<Rightarrow> string \<Rightarrow> indexEntry option" where
  "index_entry_of parse file =
     (case parse file of
        Inl message \<Rightarrow> None
      | Inr docData \<Rightarrow>
          if truthy (displayName docData)
          then Some \<lparr>entry_name = the (displayName docData),
                     entry_description = or_else (description docData) []\<rparr>
          else None)"

text \<open>The files written by a list of effects, in order: directory, name and content.\<close>

fun written :: "effect list \<Rightarrow> (string \<times> string \<times> string) list" where
  "written [] = []"
| "written (WriteFile dir name content # fx) = (dir, name, content) # written fx"
| "written (other # fx) = written fx"

text \<open>An override file that sets nothing.\<close>

definition empty_customConfig :: customConfig where
  "empty_customConfig =
     \<lparr>c_outDir = None, c_componentsDir = None, c_docName = None, c_docType = None,
      c_docDescription = None, c_customContent = None\<rparr>"

text \<open>
  A parser to run the properties on: it raises on \<open>Broken.vue\<close>, returns a document
  without a display name for \<open>Anonymous.vue\<close>, and \<open>sample_doc\<close> for every other file.
\<close>

definition sample_parse :: "string \<Rightarrow> string + componentDoc" where
  "sample_parse file =
     (if file = ''/app/src/components/Broken.vue'' then Inl ''Unexpected token''
      else if file = ''/app/src/components/Anonymous.vue''
      then Inr (sample_doc\<lparr>displayName := None\<rparr>)
      else Inr sample_doc)"

text \<open>
  An environment to run the properties on: the given override file, no output directory
  yet, three files under every root, \<open>sample_parse\<close>, and no file to read.
\<close>

definition sample_env :: "configFile \<Rightarrow> env" where
  "sample_env file =
     \<lparr>env_configFile = file,
      env_dirExists = (\<lambda>dir. False),
      env_findVueFiles = (\<lambda>dir. Some [''/app/src/components/Broken.vue'',
                                       ''/app/src/components/Button.vue'',
                                       ''/app/src/components/Anonymous.vue'']),
      env_parse = sample_parse,
      env_readFile = (\<lambda>path. FileMissing)\<rparr>"

text \<open>
  A second component, without a description, and an environment that finds it after
  \<open>Button.vue\<close> and \<open>Broken.vue\<close>: the list of files is not in the order of the names.
\<close>

definition alert_doc :: componentDoc where
  "alert_doc = sample_doc\<lparr>displayName := Some ''Alert'', description := None\<rparr>"

definition listing_env :: "configFile \<Rightarrow> env" where
  "listing_env cf =
     (sample_env cf)
       \<lparr>env_findVueFiles := (\<lambda>dir. Some [''/app/src/components/Button.vue'',
                                          ''/app/src/components/Broken.vue'',
                                          ''/app/src/components/Alert.vue'']),
        env_parse := (\<lambda>file. if file = ''/app/src/components/Alert.vue'' then Inr alert_doc
                              else sample_parse file)\<rparr>"




section \<open>Properties\<close>

subsection \<open>Loops that append to a string\<close>

lemma forEach_from_acc:
  "forEach_from k (\<lambda>x i s. s @ g x i) xs s = s @ forEach_from k (\<lambda>x i s. s @ g x i) xs []"
proof (induction xs arbitrary: k s)
  case Nil
  show ?case by simp
next
  case (Cons x xs)
  from Cons.IH [of "Suc k" "s @ g x k"] Cons.IH [of "Suc k" "g x k"]
  show ?case by simp
qed

lemma forEach_from_concat:
  "forEach_from k (\<lambda>x i s. s @ g x i) xs s =
   s @ concat (map (\<lambda>(i, x). g x i) (enumerate k xs))"
  by (induction xs arbitrary: k s) simp_all

lemma forEach_from_sublist:
  "i < length xs \<Longrightarrow> sublist (g (xs ! i) (k + i)) (forEach_from k (\<lambda>x i s. s @ g x i) xs s)"
proof (induction xs arbitrary: k s i)
  case Nil
  then show ?case by simp
next
  case (Cons x xs)
  show ?case
  proof (cases i)
    case 0
    have "forEach_from k (\<lambda>x i s. s @ g x i) (x # xs) s =
          s @ g x k @ forEach_from (Suc k) (\<lambda>x i s. s @ g x i) xs []"
      using forEach_from_acc [where k = "Suc k" and g = g and xs = xs and s = "s @ g x k"] by simp
    then show ?thesis using 0 by simp
  next
    case (Suc j)
    then have "j < length xs" using Cons.prems by simp
    from Cons.IH [OF this, of "Suc k" "s @ g x k"] show ?thesis using Suc by simp
  qed
qed

lemma forEach_acc:
  "forEach (\<lambda>x i s. s @ g x i) xs s = s @ forEach (\<lambda>x i s. s @ g x i) xs []"
  unfolding forEach_def by (rule forEach_from_acc)

lemma forEach_concat:
  "forEach (\<lambda>x i s. s @ g x i) xs s = s @ concat (map (\<lambda>(i, x). g x i) (enumerate 0 xs))"
  unfolding forEach_def by (rule forEach_from_concat)

lemma forEach_sublist:
  "i < length xs \<Longrightarrow> sublist (g (xs ! i) i) (forEach (\<lambda>x i s. s @ g x i) xs s)"
  unfolding forEach_def using forEach_from_sublist [where i = i and xs = xs and g = g and k = 0 and s = s] by simp

lemma forEach_try_acc:
  "forEach_try (\<lambda>x s. case f x of Inl e \<Rightarrow> Inl e | Inr t \<Rightarrow> Inr (s @ g x t)) xs s =
     (case forEach_try (\<lambda>x s. case f x of Inl e \<Rightarrow> Inl e | Inr t \<Rightarrow> Inr (s @ g x t)) xs [] of
        Inl e \<Rightarrow> Inl e
      | Inr r \<Rightarrow> Inr (s @ r))"
proof (induction xs arbitrary: s)
  case Nil
  show ?case by simp
next
  case (Cons x xs)
  show ?case
  proof (cases "f x")
    case (Inl e)
    then show ?thesis by simp
  next
    case (Inr t)
    from Cons.IH [of "s @ g x t"] Cons.IH [of "g x t"] Inr
    show ?thesis by (simp split: sum.splits)
  qed
qed

lemma forEach_try_Inr_iff:
  "(\<exists>r. forEach_try (\<lambda>x s. case f x of Inl e \<Rightarrow> Inl e | Inr t \<Rightarrow> Inr (s @ g x t)) xs s = Inr r) \<longleftrightarrow>
   (\<forall>x \<in> set xs. \<exists>t. f x = Inr t)"
proof (induction xs arbitrary: s)
  case Nil
  show ?case by simp
next
  case (Cons x xs)
  show ?case
    by (cases "f x") (simp_all add: Cons.IH)
qed

lemma forEach_try_sublist:
  assumes "forEach_try (\<lambda>x s. case f x of Inl e \<Rightarrow> Inl e | Inr t \<Rightarrow> Inr (s @ g x t)) xs s = Inr r"
    and "x \<in> set xs"
  shows "\<exists>t. f x = Inr t \<and> sublist (g x t) r"
  using assms
proof (induction xs arbitrary: s r)
  case Nil
  then show ?case by simp
next
  case (Cons y ys)
  let ?body = "\<lambda>x s. case f x of Inl e \<Rightarrow> Inl e | Inr t \<Rightarrow> Inr (s @ g x t)"
  from Cons.prems(1) obtain u where u: "f y = Inr u"
    by (cases "f y") simp_all
  with Cons.prems(1) have rest: "forEach_try ?body ys (s @ g y u) = Inr r"
    by simp
  show ?case
  proof (cases "x = y")
    case True
    from rest obtain r' where "r = (s @ g y u) @ r'"
      using forEach_try_acc [where f = f and g = g and xs = ys and s = "s @ g y u"] by (auto split: sum.splits)
    then have "sublist (g y u) r" by simp
    with u True show ?thesis by blast
  next
    case False
    with Cons.prems(2) have "x \<in> set ys" by simp
    from Cons.IH [OF rest this] show ?thesis .
  qed
qed

subsection \<open>The type formatter\<close>

text \<open>
  \<^bold>\<open>C2\<close>, as it is written: a descriptor named \<open>union\<close> that holds a list of elements is
  formatted as the formatted elements joined by the separator.  This fails for the
  empty list, where line 136 tests \<open>type.elements.length\<close> and line 142 returns the name
  \<open>union\<close>, while the join of no strings is the empty string.
\<close>

theorem formatType_union_empty_counterexample:
  "\<not> (\<forall>elements isMarkdown.
        formatType (Some (ParamType (Some ''union'') (Some elements))) isMarkdown =
        Inr (join (if isMarkdown then '' '' @ [CHR 0x5C] @ ''| '' else '' | '')
               (map (\<lambda>element. formatType_desc element isMarkdown) elements)))"
proof
  assume "\<forall>elements isMarkdown.
        formatType (Some (ParamType (Some ''union'') (Some elements))) isMarkdown =
        Inr (join (if isMarkdown then '' '' @ [CHR 0x5C] @ ''| '' else '' | '')
               (map (\<lambda>element. formatType_desc element isMarkdown) elements))"
  then have "formatType (Some (ParamType (Some ''union'') (Some []))) False =
        Inr (join (if False then '' '' @ [CHR 0x5C] @ ''| '' else '' | '')
               (map (\<lambda>element. formatType_desc element False) []))"
    by (elim allE)
  then show False
    by (simp add: formatType_def or_else_def)
qed

text \<open>
  \<^bold>\<open>C2\<close>, amended: a descriptor named \<open>union\<close> that holds a list of elements which is
  not empty is formatted as its elements, each formatted by the same function, joined by
  \<open>' | '\<close> for HTML and by \<open>' \| '\<close> for Markdown; a descriptor named \<open>union\<close> with no
  elements, or with an empty list of them, is formatted as \<open>union\<close>; and a descriptor with
  another name is formatted as its name, or as the empty string when it has none.
\<close>

theorem formatType_union_joined:
  "(elements \<noteq> [] \<longrightarrow>
      formatType (Some (ParamType (Some ''union'') (Some elements))) False =
        Inr (join '' | '' (map (\<lambda>element. formatType_desc element False) elements)) \<and>
      formatType (Some (ParamType (Some ''union'') (Some elements))) True =
        Inr (join ('' '' @ [CHR 0x5C] @ ''| '') (map (\<lambda>element. formatType_desc element True) elements))) \<and>
   (\<forall>element \<in> set elements.
      formatType (Some element) isMarkdown = Inr (formatType_desc element isMarkdown)) \<and>
   (elements = [] \<longrightarrow>
      formatType (Some (ParamType (Some ''union'') (Some elements))) isMarkdown = Inr ''union'') \<and>
   formatType (Some (ParamType (Some ''union'') None)) isMarkdown = Inr ''union'' \<and>
   (name \<noteq> Some ''union'' \<longrightarrow>
      formatType (Some (ParamType name es)) isMarkdown =
        Inr (case name of None \<Rightarrow> [] | Some s \<Rightarrow> s))"
  by (cases es) (simp_all add: formatType_def or_else_def split: option.splits)

theorem formatType_union_joined_witness:
  "[ParamType (Some ''primary'') None,
    ParamType (Some ''union'') (Some [ParamType (Some ''a'') None, ParamType None None]),
    ParamType (Some ''secondary'') None] \<noteq> [] \<and>
   formatType (Some (ParamType (Some ''union'')
       (Some [ParamType (Some ''primary'') None,
              ParamType (Some ''union'') (Some [ParamType (Some ''a'') None, ParamType None None]),
              ParamType (Some ''secondary'') None]))) False =
     Inr ''primary | a |  | secondary'' \<and>
   formatType (Some (ParamType (Some ''union'')
       (Some [ParamType (Some ''primary'') None,
              ParamType (Some ''union'') (Some [ParamType (Some ''a'') None, ParamType None None]),
              ParamType (Some ''secondary'') None]))) True =
     Inr (''primary '' @ [CHR 0x5C] @ ''| a '' @ [CHR 0x5C] @ ''|  '' @ [CHR 0x5C] @ ''| secondary'') \<and>
   formatType (Some (ParamType (Some ''union'') None)) True = Inr ''union'' \<and>
   Some ''Array'' \<noteq> Some ''union'' \<and>
   formatType (Some (ParamType (Some ''Array'') (Some [ParamType (Some ''string'') None]))) True =
     Inr ''Array''"
  using formatType_union_joined
    [of "[ParamType (Some ''primary'') None,
          ParamType (Some ''union'') (Some [ParamType (Some ''a'') None, ParamType None None]),
          ParamType (Some ''secondary'') None]" True "Some ''Array''"
        "Some [ParamType (Some ''string'') None]"]
  by (simp add: or_else_def)

subsection \<open>Escaping\<close>

lemma replace_char_append:
  "replace_char c r (xs @ ys) = replace_char c r xs @ replace_char c r ys"
  by (induction xs) simp_all

lemma escapeHtml_Nil: "escapeHtml [] = []"
  by (simp add: escapeHtml_def)

lemma escapeHtml_Cons: "escapeHtml (c # s) = escape_char c @ escapeHtml s"
  by (simp add: escapeHtml_def escape_char_def replace_char_append)

lemma escapeHtml_concat: "escapeHtml s = concat (map escape_char s)"
  by (induction s) (simp_all add: escapeHtml_Nil escapeHtml_Cons)

lemma escaped_escapeHtml: "escaped (escapeHtml s)"
  by (induction s) (simp_all add: escapeHtml_Nil escapeHtml_Cons escape_char_def)

lemma escapeHtml_no_markup:
  "set (escapeHtml s) \<inter> set [CHR ''<'', CHR ''>'', CHR 0x22, CHR 0x27] = {}"
  by (induction s) (auto simp add: escapeHtml_Nil escapeHtml_Cons escape_char_def)

subsection \<open>The sections of a page\<close>

lemma sublist_middle: "sublist x y \<Longrightarrow> sublist x (a @ y @ b)"
proof -
  assume "sublist x y"
  then obtain ps ss where "y = ps @ x @ ss" by (auto simp: sublist_def)
  then have "a @ y @ b = (a @ ps) @ x @ (ss @ b)" by simp
  then show ?thesis unfolding sublist_def by blast
qed

lemma sublist_left: "sublist x y \<Longrightarrow> sublist x (y @ b)"
  using sublist_middle [of x y "[]" b] by simp

lemma html_example_body:
  "html_example =
     (\<lambda>example index htmlContent. htmlContent @
        (html_example_open @
         or_else (ex_title example) (zh_example @ '' '' @ show_nat (index + 1)) @
         html_example_code @ escapeHtml (or_else (ex_content example) []) @
         html_example_close))"
  by (intro ext) (simp add: html_example_def Let_def)

lemma html_prop_body:
  \<open>html_prop =
     (\<lambda>p htmlContent. case formatType (prop_type p) False of
        Inl e \<Rightarrow> Inl e
      | Inr formattedType \<Rightarrow>
          Inr (htmlContent @
               (html_tr_open @ prop_name p @
                html_td_sep @ ''<code>'' @ formattedType @ ''</code>'' @
                html_td_sep @ (case prop_defaultValue p of
                                 Some dv \<Rightarrow> ''<code>'' @ dv_value dv @ ''</code>''
                               | None \<Rightarrow> ''-'') @
                html_td_sep @ or_else (prop_description p) ''-'' @ html_tr_close)))\<close>
  by (intro ext) (simp add: html_prop_def split: sum.splits)

lemma html_expose_body:
  \<open>html_expose =
     (\<lambda>item index htmlContent. htmlContent @
        (html_tr_open @ expose_name item @
         html_td_sep @ (if truthy (getExposeType item)
                        then ''<code>'' @ the (getExposeType item) @ ''</code>'' else ''-'') @
         html_td_sep @ or_else (expose_description item) ''-'' @ html_tr_close))\<close>
  by (intro ext) (simp add: html_expose_def Let_def)

lemma html_event_body:
  \<open>html_event =
     (\<lambda>event index htmlContent. htmlContent @
        (html_tr_open @ or_else (event_name event) ''-'' @
         html_td_sep @ formatEventParams (event_properties event) False @
         html_td_sep @ or_else (event_description event) ''-'' @ html_tr_close))\<close>
  by (intro ext) (simp add: html_event_def Let_def)

lemma html_slot_body:
  \<open>html_slot =
     (\<lambda>slot index htmlContent. htmlContent @
        (html_tr_open @ slot_name slot @
         html_td_sep @ or_else (slot_description slot) ''-'' @ html_tr_close))\<close>
  by (intro ext) (simp add: html_slot_def)

lemma html_description_section_acc:
  "html_description_section docData s = s @ html_description_section docData []"
  by (simp add: html_description_section_def)

lemma html_examples_section_acc:
  "html_examples_section docData s = s @ html_examples_section docData []"
  unfolding html_examples_section_def html_example_body
  by (simp add: forEach_acc [where s = "_ @ _"] forEach_acc [where s = "_ # _"]
      split: option.splits)


lemma html_props_section_acc:
  "html_props_section docData s =
     (case html_props_section docData [] of Inl e \<Rightarrow> Inl e | Inr r \<Rightarrow> Inr (s @ r))"
  unfolding html_props_section_def html_prop_body
  by (simp add: forEach_try_acc [where s = "_ @ _"] forEach_try_acc [where s = html_props_header]
      split: option.splits sum.splits)

lemma html_expose_section_acc:
  "html_expose_section docData s = s @ html_expose_section docData []"
  unfolding html_expose_section_def html_expose_body
  by (simp add: forEach_acc [where s = "_ @ _"] forEach_acc [where s = html_expose_header]
      split: option.splits)

lemma html_events_section_acc:
  "html_events_section docData s = s @ html_events_section docData []"
  unfolding html_events_section_def html_event_body
  by (simp add: forEach_acc [where s = "_ @ _"] forEach_acc [where s = html_events_header]
      split: option.splits)

lemma html_slots_section_acc:
  "html_slots_section docData s = s @ html_slots_section docData []"
  unfolding html_slots_section_def html_slot_body
  by (simp add: forEach_acc [where s = "_ @ _"] forEach_acc [where s = html_slots_header]
      split: option.splits)

text \<open>A page that is returned is its head, its six sections in order, and its tail.\<close>

lemma generateComponentHtml_sections:
  assumes "generateComponentHtml docData docTitle componentName = Inr html"
  shows "\<exists>propsText.
           html_props_section docData [] = Inr propsText \<and>
           html = (html_head_open @ componentName @ '' - '' @ docTitle @ html_head_style @
                   interpolate (displayName docData) @ ''</h1>'') @
                  html_description_section docData [] @
                  html_examples_section docData [] @
                  propsText @
                  html_expose_section docData [] @
                  html_events_section docData [] @
                  html_slots_section docData [] @
                  html_tail"
proof -
  let ?head = "html_head_open @ componentName @ '' - '' @ docTitle @ html_head_style @
               interpolate (displayName docData) @ ''</h1>''"
  let ?s2 = "html_examples_section docData (html_description_section docData ?head)"
  have s2: "?s2 = ?head @ html_description_section docData [] @ html_examples_section docData []"
    using html_examples_section_acc [of docData "html_description_section docData ?head"]
      html_description_section_acc [of docData ?head]
    by simp
  from assms obtain r where r: "html_props_section docData ?s2 = Inr r"
    and html: "html = html_slots_section docData
                 (html_events_section docData (html_expose_section docData r)) @ html_tail"
    by (auto simp add: generateComponentHtml_def Let_def split: sum.splits)
  from r obtain propsText where p: "html_props_section docData [] = Inr propsText"
    and rp: "r = ?s2 @ propsText"
    using html_props_section_acc [of docData ?s2] by (auto split: sum.splits)
  have "html = ((r @ html_expose_section docData []) @ html_events_section docData []) @
               html_slots_section docData [] @ html_tail"
    using html
      html_slots_section_acc [of docData "html_events_section docData (html_expose_section docData r)"]
      html_events_section_acc [of docData "html_expose_section docData r"]
      html_expose_section_acc [of docData r]
    by simp
  with rp s2 p show ?thesis by simp
qed

lemma generateComponentHtml_total:
  "(\<exists>html. generateComponentHtml docData docTitle componentName = Inr html) \<longleftrightarrow>
   (\<exists>propsText. html_props_section docData [] = Inr propsText)"
proof
  assume "\<exists>html. generateComponentHtml docData docTitle componentName = Inr html"
  then show "\<exists>propsText. html_props_section docData [] = Inr propsText"
    using generateComponentHtml_sections by blast
next
  assume "\<exists>propsText. html_props_section docData [] = Inr propsText"
  then obtain propsText where p: "html_props_section docData [] = Inr propsText" ..
  show "\<exists>html. generateComponentHtml docData docTitle componentName = Inr html"
    unfolding generateComponentHtml_def Let_def
    using p html_props_section_acc [of docData "html_examples_section docData
        (html_description_section docData
          (html_head_open @ componentName @ '' - '' @ docTitle @ html_head_style @
           interpolate (displayName docData) @ ''</h1>''))"]
    by simp
qed

lemma forEach_member_sublist:
  assumes "x \<in> set xs"
  shows "sublist (h x) (forEach (\<lambda>x i s. s @ h x) xs s)"
proof -
  from assms obtain i where "i < length xs" and "xs ! i = x"
    by (auto simp: in_set_conv_nth)
  then show ?thesis
    using forEach_sublist [where i = i and xs = xs and g = "\<lambda>x i. h x" and s = s] by simp
qed

lemma html_description_sublist:
  \<open>truthy (description docData) \<Longrightarrow>
   sublist (''<div class="description">'' @ the (description docData) @ ''</div>'')
     (html_description_section docData [])\<close>
  by (simp add: html_description_section_def)

lemma html_examples_sublist:
  assumes "tags docData = Some t" and "examples t = Some exs" and "i < length exs"
  shows "sublist
           (html_example_open @
            or_else (ex_title (exs ! i)) (zh_example @ '' '' @ show_nat (i + 1)) @
            html_example_code @ escapeHtml (or_else (ex_content (exs ! i)) []) @
            html_example_close)
           (html_examples_section docData [])"
  using assms forEach_sublist [where i = i and xs = exs and s = "''<h2>'' @ zh_component_examples @ ''</h2>''"
      and g = "\<lambda>example index. html_example_open @
         or_else (ex_title example) (zh_example @ '' '' @ show_nat (index + 1)) @
         html_example_code @ escapeHtml (or_else (ex_content example) []) @
         html_example_close"]
  unfolding html_examples_section_def html_example_body
  by (cases exs) simp_all

lemma html_props_sublist:
  assumes "html_props_section docData [] = Inr propsText" and "props docData = Some ps"
    and "(n, p) \<in> set ps" and "truthy (prop_description p)"
  shows "sublist (html_td_sep @ the (prop_description p) @ html_tr_close) propsText"
proof -
  let ?g = "\<lambda>p formattedType. html_tr_open @ prop_name p @
                html_td_sep @ ''<code>'' @ formattedType @ ''</code>'' @
                html_td_sep @ (case prop_defaultValue p of
                                 Some dv \<Rightarrow> ''<code>'' @ dv_value dv @ ''</code>''
                               | None \<Rightarrow> ''-'') @
                html_td_sep @ or_else (prop_description p) ''-'' @ html_tr_close"
  let ?body = "\<lambda>p htmlContent. case formatType (prop_type p) False of
        Inl e \<Rightarrow> Inl e | Inr formattedType \<Rightarrow> Inr (htmlContent @ ?g p formattedType)"
  from assms(3) have ne: "ps \<noteq> []" and mem: "p \<in> set (map snd ps)" by force+
  from assms(1,2) ne obtain r where r: "forEach_try ?body (map snd ps) html_props_header = Inr r"
    and pt: "propsText = r @ ''</table>''"
    unfolding html_props_section_def html_prop_body
    by (auto split: sum.splits)
  from forEach_try_sublist [where f = "\<lambda>p. formatType (prop_type p) False" and g = ?g, OF r mem]
  obtain ft where "sublist (?g p ft) r" by blast
  moreover have "sublist (html_td_sep @ the (prop_description p) @ html_tr_close) (?g p ft)"
  proof -
    from assms(4) have "or_else (prop_description p) ''-'' = the (prop_description p)"
      by (auto simp: truthy_def or_else_def split: option.splits)
    then have "?g p ft = (html_tr_open @ prop_name p @
                html_td_sep @ ''<code>'' @ ft @ ''</code>'' @
                html_td_sep @ (case prop_defaultValue p of
                                 Some dv \<Rightarrow> ''<code>'' @ dv_value dv @ ''</code>''
                               | None \<Rightarrow> ''-'')) @
                (html_td_sep @ the (prop_description p) @ html_tr_close)"
      by simp
    then show ?thesis by (metis sublist_append_leftI)
  qed
  ultimately have "sublist (html_td_sep @ the (prop_description p) @ html_tr_close) r"
    using sublist_order.order_trans by blast
  with pt show ?thesis by (simp add: sublist_left)
qed

lemma html_events_sublist:
  assumes "events docData = Some evs" and "ev \<in> set evs" and "truthy (event_description ev)"
  shows "sublist (html_td_sep @ the (event_description ev) @ html_tr_close)
           (html_events_section docData [])"
proof -
  let ?h = "\<lambda>event. html_tr_open @ or_else (event_name event) ''-'' @
         html_td_sep @ formatEventParams (event_properties event) False @
         html_td_sep @ or_else (event_description event) ''-'' @ html_tr_close"
  from assms(3) have "or_else (event_description ev) ''-'' = the (event_description ev)"
    by (auto simp: truthy_def or_else_def split: option.splits)
  then have "?h ev = (html_tr_open @ or_else (event_name ev) ''-'' @
         html_td_sep @ formatEventParams (event_properties ev) False) @
         (html_td_sep @ the (event_description ev) @ html_tr_close)"
    by simp
  then have "sublist (html_td_sep @ the (event_description ev) @ html_tr_close) (?h ev)"
    by (metis sublist_append_leftI)
  moreover have "sublist (?h ev) (forEach (\<lambda>x i s. s @ ?h x) evs html_events_header)"
    using assms(2) by (rule forEach_member_sublist)
  ultimately have "sublist (html_td_sep @ the (event_description ev) @ html_tr_close)
      (forEach (\<lambda>x i s. s @ ?h x) evs html_events_header)"
    using sublist_order.order_trans by blast
  moreover from assms(2) have "evs \<noteq> []" by auto
  ultimately show ?thesis
    using assms(1) unfolding html_events_section_def html_event_body
    by (simp add: sublist_left)
qed

lemma html_slots_sublist:
  assumes "slots docData = Some ss" and "(n, sl) \<in> set ss" and "truthy (slot_description sl)"
  shows "sublist (html_td_sep @ the (slot_description sl) @ html_tr_close)
           (html_slots_section docData [])"
proof -
  let ?h = "\<lambda>slot. html_tr_open @ slot_name slot @
         html_td_sep @ or_else (slot_description slot) ''-'' @ html_tr_close"
  from assms(3) have "or_else (slot_description sl) ''-'' = the (slot_description sl)"
    by (auto simp: truthy_def or_else_def split: option.splits)
  then have "?h sl = (html_tr_open @ slot_name sl) @
         (html_td_sep @ the (slot_description sl) @ html_tr_close)"
    by simp
  then have "sublist (html_td_sep @ the (slot_description sl) @ html_tr_close) (?h sl)"
    by (metis sublist_append_leftI)
  moreover from assms(2) have mem: "sl \<in> set (map snd ss)" and ne: "ss \<noteq> []" by force+
  have "sublist (?h sl) (forEach (\<lambda>x i s. s @ ?h x) (map snd ss) html_slots_header)"
    using mem by (rule forEach_member_sublist)
  ultimately have "sublist (html_td_sep @ the (slot_description sl) @ html_tr_close)
      (forEach (\<lambda>x i s. s @ ?h x) (map snd ss) html_slots_header)"
    using sublist_order.order_trans by blast
  then show ?thesis
    using assms(1) ne unfolding html_slots_section_def html_slot_body
    by (simp add: sublist_left)
qed

subsection \<open>What the HTML renderer escapes\<close>

text \<open>
  \<^bold>\<open>C1\<close>.  In a page the HTML renderer returns: every example stands as the block of
  lines 338 to 342 with its code passed through \<open>escapeHtml\<close>; what \<open>escapeHtml\<close> returns is
  its argument with each of the five characters replaced by its entity, so that \<open>&\<close> only
  starts an entity and \<open><\<close>, \<open>>\<close> and the two quotes do not occur; and the description of
  the component, of a prop, of an event and of a slot stands in the page as it is in the
  document, between the tags of its block or as the last cell of its row.
\<close>

theorem html_escapes_example_code_only:
  assumes "generateComponentHtml docData docTitle componentName = Inr html"
  shows \<open>(\<forall>t exs i. tags docData = Some t \<and> examples t = Some exs \<and> i < length exs \<longrightarrow>
            sublist
              (html_example_open @
               or_else (ex_title (exs ! i)) (zh_example @ '' '' @ show_nat (i + 1)) @
               html_example_code @ escapeHtml (or_else (ex_content (exs ! i)) []) @
               html_example_close) html) \<and>
         (\<forall>code. escapeHtml code = concat (map escape_char code) \<and>
                 escaped (escapeHtml code) \<and>
                 set (escapeHtml code) \<inter> set [CHR ''<'', CHR ''>'', CHR 0x22, CHR 0x27] = {}) \<and>
         (truthy (description docData) \<longrightarrow>
            sublist (''<div class="description">'' @ the (description docData) @ ''</div>'') html) \<and>
         (\<forall>ps n p. props docData = Some ps \<and> (n, p) \<in> set ps \<and> truthy (prop_description p) \<longrightarrow>
            sublist (html_td_sep @ the (prop_description p) @ html_tr_close) html) \<and>
         (\<forall>evs ev. events docData = Some evs \<and> ev \<in> set evs \<and> truthy (event_description ev) \<longrightarrow>
            sublist (html_td_sep @ the (event_description ev) @ html_tr_close) html) \<and>
         (\<forall>ss n sl. slots docData = Some ss \<and> (n, sl) \<in> set ss \<and> truthy (slot_description sl) \<longrightarrow>
            sublist (html_td_sep @ the (slot_description sl) @ html_tr_close) html)\<close>
proof -
  let ?head = "html_head_open @ componentName @ '' - '' @ docTitle @ html_head_style @
               interpolate (displayName docData) @ ''</h1>''"
  from generateComponentHtml_sections [OF assms]
  obtain propsText where p: "html_props_section docData [] = Inr propsText"
    and html: "html = ?head @ html_description_section docData [] @
                  html_examples_section docData [] @ propsText @
                  html_expose_section docData [] @ html_events_section docData [] @
                  html_slots_section docData [] @ html_tail"
    by auto
  have in_description: "sublist x html" if "sublist x (html_description_section docData [])" for x
    using that html sublist_middle [of x "html_description_section docData []" ?head] by simp
  have in_examples: "sublist x html" if "sublist x (html_examples_section docData [])" for x
    using that html sublist_middle [of x "html_examples_section docData []"
        "?head @ html_description_section docData []"] by simp
  have in_props: "sublist x html" if "sublist x propsText" for x
    using that html sublist_middle [of x propsText
        "?head @ html_description_section docData [] @ html_examples_section docData []"] by simp
  have in_events: "sublist x html" if "sublist x (html_events_section docData [])" for x
    using that html sublist_middle [of x "html_events_section docData []"
        "?head @ html_description_section docData [] @ html_examples_section docData [] @
         propsText @ html_expose_section docData []"] by simp
  have in_slots: "sublist x html" if "sublist x (html_slots_section docData [])" for x
    using that html sublist_middle [of x "html_slots_section docData []"
        "?head @ html_description_section docData [] @ html_examples_section docData [] @
         propsText @ html_expose_section docData [] @ html_events_section docData []"] by simp
  have examples: "\<forall>t exs i. tags docData = Some t \<and> examples t = Some exs \<and> i < length exs \<longrightarrow>
            sublist
              (html_example_open @
               or_else (ex_title (exs ! i)) (zh_example @ '' '' @ show_nat (i + 1)) @
               html_example_code @ escapeHtml (or_else (ex_content (exs ! i)) []) @
               html_example_close) html"
    using html_examples_sublist in_examples by blast
  have escaping: "\<forall>code. escapeHtml code = concat (map escape_char code) \<and>
                 escaped (escapeHtml code) \<and>
                 set (escapeHtml code) \<inter> set [CHR ''<'', CHR ''>'', CHR 0x22, CHR 0x27] = {}"
    using escapeHtml_concat escaped_escapeHtml escapeHtml_no_markup by blast
  have description: \<open>truthy (description docData) \<longrightarrow>
            sublist (''<div class="description">'' @ the (description docData) @ ''</div>'') html\<close>
    using html_description_sublist in_description by blast
  have props: "\<forall>ps n p. props docData = Some ps \<and> (n, p) \<in> set ps \<and> truthy (prop_description p) \<longrightarrow>
            sublist (html_td_sep @ the (prop_description p) @ html_tr_close) html"
    using html_props_sublist [OF p] in_props by blast
  have events: "\<forall>evs ev. events docData = Some evs \<and> ev \<in> set evs \<and> truthy (event_description ev) \<longrightarrow>
            sublist (html_td_sep @ the (event_description ev) @ html_tr_close) html"
    using html_events_sublist in_events by blast
  have slots: "\<forall>ss n sl. slots docData = Some ss \<and> (n, sl) \<in> set ss \<and> truthy (slot_description sl) \<longrightarrow>
            sublist (html_td_sep @ the (slot_description sl) @ html_tr_close) html"
    using html_slots_sublist in_slots by blast
  from examples escaping description props events slots show ?thesis by blast
qed

lemma sample_doc_html: "\<exists>html. generateComponentHtml sample_doc docTitle componentName = Inr html"
  unfolding generateComponentHtml_total
  by (simp add: html_props_section_def html_prop_def formatType_def sample_doc_def)

theorem html_escapes_example_code_only_witness:
  \<open>\<exists>html. generateComponentHtml sample_doc ''Docs'' ''Button'' = Inr html \<and>
     sublist (html_example_open @ zh_example @ '' 1'' @ html_example_code @
              ''&lt;Button a=&quot;1&quot;&gt;T&amp;C&lt;/Button&gt;'' @ html_example_close) html \<and>
     escaped ''&lt;Button a=&quot;1&quot;&gt;T&amp;C&lt;/Button&gt;'' \<and>
     sublist ''<div class="description">A <b>button</b></div>'' html \<and>
     sublist (html_td_sep @ ''The <i>look</i>'' @ html_tr_close) html \<and>
     sublist (html_td_sep @ ''Fired on <em>click</em>'' @ html_tr_close) html \<and>
     sublist (html_td_sep @ ''The "label"'' @ html_tr_close) html\<close>
proof -
  obtain html where h: "generateComponentHtml sample_doc ''Docs'' ''Button'' = Inr html"
    using sample_doc_html by blast
  note c = html_escapes_example_code_only [OF h]
  have code: \<open>escapeHtml ''<Button a="1">T&C</Button>'' =
              ''&lt;Button a=&quot;1&quot;&gt;T&amp;C&lt;/Button&gt;''\<close>
    by (simp add: escapeHtml_def)
  from c have "tags sample_doc = Some t \<and> examples t = Some exs \<and> 0 < length exs \<longrightarrow>
       sublist (html_example_open @
               or_else (ex_title (exs ! 0)) (zh_example @ '' '' @ show_nat (0 + 1)) @
               html_example_code @ escapeHtml (or_else (ex_content (exs ! 0)) []) @
               html_example_close) html" for t exs
    by blast
  from this [of "\<lparr>examples = Some [\<lparr>ex_title = None, ex_content = Some (''<Button a='' @ [CHR 0x22] @ ''1'' @ [CHR 0x22] @ ''>T&C</Button>'')\<rparr>]\<rparr>"
      "[\<lparr>ex_title = None, ex_content = Some (''<Button a='' @ [CHR 0x22] @ ''1'' @ [CHR 0x22] @ ''>T&C</Button>'')\<rparr>]"]
  have 1: "sublist (html_example_open @ zh_example @ '' 1'' @ html_example_code @
              ''&lt;Button a=&quot;1&quot;&gt;T&amp;C&lt;/Button&gt;'' @ html_example_close) html"
    using code by (simp add: sample_doc_def or_else_def show_nat.simps)
  from c have "escaped (escapeHtml (''<Button a='' @ [CHR 0x22] @ ''1'' @ [CHR 0x22] @ ''>T&C</Button>''))"
    by blast
  then have 2: "escaped ''&lt;Button a=&quot;1&quot;&gt;T&amp;C&lt;/Button&gt;''"
    using code by simp
  from c have 3: \<open>sublist ''<div class="description">A <b>button</b></div>'' html\<close>
    by (simp add: sample_doc_def truthy_def)
  from c have "props sample_doc = Some ps \<and> (n, p) \<in> set ps \<and> truthy (prop_description p) \<longrightarrow>
            sublist (html_td_sep @ the (prop_description p) @ html_tr_close) html" for ps n p
    by blast
  from this [of "the (props sample_doc)" "''variant''" "snd (hd (the (props sample_doc)))"]
  have 4: "sublist (html_td_sep @ ''The <i>look</i>'' @ html_tr_close) html"
    by (simp add: sample_doc_def truthy_def)
  from c have "events sample_doc = Some evs \<and> ev \<in> set evs \<and> truthy (event_description ev) \<longrightarrow>
            sublist (html_td_sep @ the (event_description ev) @ html_tr_close) html" for evs ev
    by blast
  from this [of "the (events sample_doc)" "hd (the (events sample_doc))"]
  have 5: "sublist (html_td_sep @ ''Fired on <em>click</em>'' @ html_tr_close) html"
    by (simp add: sample_doc_def truthy_def)
  from c have "slots sample_doc = Some ss \<and> (n, sl) \<in> set ss \<and> truthy (slot_description sl) \<longrightarrow>
            sublist (html_td_sep @ the (slot_description sl) @ html_tr_close) html" for ss n sl
    by blast
  from this [of "the (slots sample_doc)" "''default''" "snd (hd (the (slots sample_doc)))"]
  have 6: \<open>sublist (html_td_sep @ ''The "label"'' @ html_tr_close) html\<close>
    by (simp add: sample_doc_def truthy_def)
  from h 1 2 3 4 5 6 show ?thesis by blast
qed

subsection \<open>The default cell of the Markdown props table\<close>







subsection \<open>When the renderers return\<close>

lemma formatType_Inr_iff: "(\<exists>t. formatType type isMarkdown = Inr t) \<longleftrightarrow> type \<noteq> None"
  by (cases type) (simp_all add: formatType_def)

lemma md_prop_body:
  \<open>md_prop =
     (\<lambda>p mdContent. case formatType (prop_type p) True of
        Inl e \<Rightarrow> Inl e
      | Inr formattedType \<Rightarrow>
          Inr (mdContent @
               (''| '' @ prop_name p @ '' | '' @ (''`'' @ formattedType @ ''`'') @ '' | '' @
                md_defaultValue p @ '' | '' @ or_else (prop_description p) ''-'' @ '' |\<newline>'')))\<close>
  by (intro ext) (simp add: md_prop_def Let_def split: sum.splits)

lemma all_props_typed_iff:
  "(\<forall>p \<in> set (map snd ps). \<exists>t. formatType (prop_type p) isMarkdown = Inr t) \<longleftrightarrow>
   (\<forall>n p. (n, p) \<in> set ps \<longrightarrow> prop_type p \<noteq> None)"
  by (force simp: formatType_Inr_iff)

lemma md_props_section_Inr_iff:
  "(\<exists>r. md_props_section docData s = Inr r) \<longleftrightarrow>
   (\<forall>ps n p. props docData = Some ps \<and> (n, p) \<in> set ps \<longrightarrow> prop_type p \<noteq> None)"
proof (cases "props docData")
  case None
  then show ?thesis by (simp add: md_props_section_def)
next
  case (Some ps)
  show ?thesis
  proof (cases "ps = []")
    case True
    with Some show ?thesis by (simp add: md_props_section_def)
  next
    case False
    let ?s = "s @ ''## Props\<newline>\<newline>'' @ (''| '' @ zh_name @ '' | '' @ zh_type @ '' | '' @
                zh_default_value @ '' | '' @ zh_description @ '' |\<newline>'') @
              ''|------|------|--------|------|\<newline>''"
    have "(\<exists>r. md_props_section docData s = Inr r) \<longleftrightarrow>
          (\<exists>r. forEach_try md_prop (map snd ps) ?s = Inr r)"
      using Some False by (auto simp add: md_props_section_def Let_def split: sum.splits)
    also have "\<dots> \<longleftrightarrow> (\<forall>p \<in> set (map snd ps). \<exists>t. formatType (prop_type p) True = Inr t)"
      unfolding md_prop_body by (rule forEach_try_Inr_iff)
    also have "\<dots> \<longleftrightarrow> (\<forall>n p. (n, p) \<in> set ps \<longrightarrow> prop_type p \<noteq> None)"
      by (rule all_props_typed_iff)
    finally show ?thesis using Some by simp
  qed
qed

lemma html_props_section_Inr_iff:
  "(\<exists>r. html_props_section docData s = Inr r) \<longleftrightarrow>
   (\<forall>ps n p. props docData = Some ps \<and> (n, p) \<in> set ps \<longrightarrow> prop_type p \<noteq> None)"
proof (cases "props docData")
  case None
  then show ?thesis by (simp add: html_props_section_def)
next
  case (Some ps)
  show ?thesis
  proof (cases "ps = []")
    case True
    with Some show ?thesis by (simp add: html_props_section_def)
  next
    case False
    have "(\<exists>r. html_props_section docData s = Inr r) \<longleftrightarrow>
          (\<exists>r. forEach_try html_prop (map snd ps) (s @ html_props_header) = Inr r)"
      using Some False by (auto simp add: html_props_section_def split: sum.splits)
    also have "\<dots> \<longleftrightarrow> (\<forall>p \<in> set (map snd ps). \<exists>t. formatType (prop_type p) False = Inr t)"
      unfolding html_prop_body by (rule forEach_try_Inr_iff)
    also have "\<dots> \<longleftrightarrow> (\<forall>n p. (n, p) \<in> set ps \<longrightarrow> prop_type p \<noteq> None)"
      by (rule all_props_typed_iff)
    finally show ?thesis using Some by simp
  qed
qed

lemma generateComponentMarkdown_Inr_iff:
  "(\<exists>md. generateComponentMarkdown docData = Inr md) \<longleftrightarrow>
   (\<forall>ps n p. props docData = Some ps \<and> (n, p) \<in> set ps \<longrightarrow> prop_type p \<noteq> None)"
proof -
  let ?s = "md_examples_section docData (md_description_section docData
              (''# '' @ interpolate (displayName docData) @ ''\<newline>\<newline>''))"
  have "(\<exists>md. generateComponentMarkdown docData = Inr md) \<longleftrightarrow>
        (\<exists>r. md_props_section docData ?s = Inr r)"
    by (auto simp add: generateComponentMarkdown_def Let_def split: sum.splits)
  then show ?thesis by (simp only: md_props_section_Inr_iff)
qed

lemma generateComponentHtml_Inr_iff:
  "(\<exists>html. generateComponentHtml docData docTitle componentName = Inr html) \<longleftrightarrow>
   (\<forall>ps n p. props docData = Some ps \<and> (n, p) \<in> set ps \<longrightarrow> prop_type p \<noteq> None)"
  unfolding generateComponentHtml_total by (rule html_props_section_Inr_iff)

lemma not_Inr_TypeError: "(\<nexists>r. x = Inr r) \<longleftrightarrow> x = Inl TypeError"
proof (cases x)
  case (Inl e)
  then show ?thesis by (cases e) simp
next
  case (Inr r)
  then show ?thesis by simp
qed

text \<open>
  \<^bold>\<open>C10\<close>.  When every entry of \<open>props\<close> has a type, both renderers return a page; when
  an entry has none, both raise the \<open>TypeError\<close> of \<open>formatType\<close> reading \<open>type.name\<close>.
\<close>

theorem renderers_return_iff_props_typed:
  "((\<forall>ps n p. props docData = Some ps \<and> (n, p) \<in> set ps \<longrightarrow> prop_type p \<noteq> None) \<longrightarrow>
      (\<exists>md. generateComponentMarkdown docData = Inr md) \<and>
      (\<exists>html. generateComponentHtml docData docTitle componentName = Inr html)) \<and>
   ((\<exists>ps n p. props docData = Some ps \<and> (n, p) \<in> set ps \<and> prop_type p = None) \<longrightarrow>
      formatType None True = Inl TypeError \<and>
      formatType None False = Inl TypeError \<and>
      generateComponentMarkdown docData = Inl TypeError \<and>
      generateComponentHtml docData docTitle componentName = Inl TypeError)"
proof (intro conjI impI)
  assume typed: "\<forall>ps n p. props docData = Some ps \<and> (n, p) \<in> set ps \<longrightarrow> prop_type p \<noteq> None"
  then show "\<exists>md. generateComponentMarkdown docData = Inr md"
    using generateComponentMarkdown_Inr_iff [of docData] by blast
  from typed show "\<exists>html. generateComponentHtml docData docTitle componentName = Inr html"
    using generateComponentHtml_Inr_iff [of docData docTitle componentName] by blast
next
  assume "\<exists>ps n p. props docData = Some ps \<and> (n, p) \<in> set ps \<and> prop_type p = None"
  then have untyped: "\<not> (\<forall>ps n p. props docData = Some ps \<and> (n, p) \<in> set ps \<longrightarrow> prop_type p \<noteq> None)"
    by blast
  show "formatType None True = Inl TypeError" and "formatType None False = Inl TypeError"
    by (simp_all add: formatType_def)
  from untyped have "\<nexists>md. generateComponentMarkdown docData = Inr md"
    using generateComponentMarkdown_Inr_iff [of docData] by blast
  then show "generateComponentMarkdown docData = Inl TypeError"
    by (simp only: not_Inr_TypeError)
  from untyped have "\<nexists>html. generateComponentHtml docData docTitle componentName = Inr html"
    using generateComponentHtml_Inr_iff [of docData docTitle componentName] by blast
  then show "generateComponentHtml docData docTitle componentName = Inl TypeError"
    by (simp only: not_Inr_TypeError)
qed

theorem renderers_return_iff_props_typed_witness:
  "(\<exists>md. generateComponentMarkdown sample_doc = Inr md) \<and>
   (\<exists>html. generateComponentHtml sample_doc ''Docs'' ''Button'' = Inr html) \<and>
   (\<exists>ps n p. props (sample_doc\<lparr>props := Some [(''size'', (prop_with_default [])\<lparr>prop_type := None\<rparr>)]\<rparr>) = Some ps \<and>
      (n, p) \<in> set ps \<and> prop_type p = None) \<and>
   generateComponentMarkdown
     (sample_doc\<lparr>props := Some [(''size'', (prop_with_default [])\<lparr>prop_type := None\<rparr>)]\<rparr>) =
     Inl TypeError \<and>
   generateComponentHtml
     (sample_doc\<lparr>props := Some [(''size'', (prop_with_default [])\<lparr>prop_type := None\<rparr>)]\<rparr>)
     ''Docs'' ''Button'' = Inl TypeError"
proof -
  let ?bad = "sample_doc\<lparr>props := Some [(''size'', (prop_with_default [])\<lparr>prop_type := None\<rparr>)]\<rparr>"
  have typed: "\<forall>ps n p. props sample_doc = Some ps \<and> (n, p) \<in> set ps \<longrightarrow> prop_type p \<noteq> None"
    by (simp add: sample_doc_def)
  have untyped: "\<exists>ps n p. props ?bad = Some ps \<and> (n, p) \<in> set ps \<and> prop_type p = None"
    by simp
  from renderers_return_iff_props_typed [of sample_doc "''Docs''" "''Button''"] typed
  have 1: "(\<exists>md. generateComponentMarkdown sample_doc = Inr md) \<and>
      (\<exists>html. generateComponentHtml sample_doc ''Docs'' ''Button'' = Inr html)"
    by blast
  from renderers_return_iff_props_typed [of ?bad "''Docs''" "''Button''"] untyped
  have 2: "generateComponentMarkdown ?bad = Inl TypeError \<and>
      generateComponentHtml ?bad ''Docs'' ''Button'' = Inl TypeError"
    by blast
  from 1 2 untyped show ?thesis by blast
qed

subsection \<open>The loop over the files\<close>

lemma written_append: "written (fx @ fx') = written fx @ written fx'"
  by (induction fx rule: written.induct) simp_all

lemma after_Nil: "after [] r = r"
  by (simp add: after_def split: prod.splits)

lemma after_after: "after fx (after fx' r) = after (fx @ fx') r"
  by (simp add: after_def split: prod.splits)

lemma fst_after: "fst (after fx r) = fx @ fst r"
  by (simp add: after_def split: prod.splits)

lemma snd_after: "snd (after fx r) = snd r"
  by (simp add: after_def split: prod.splits)

lemma skipped_iff: "skipped parse file \<longleftrightarrow> index_entry_of parse file = None"
  by (simp add: skipped_def index_entry_of_def split: sum.splits)

text \<open>One turn of the loop on a file that is skipped.\<close>

lemma process_files_skipped:
  assumes "skipped parse file"
  shows "process_files parse config (file # rest) components =
           after (case parse file of
                    Inl message \<Rightarrow> [Error_parse file message, Log_skip file]
                  | Inr docData \<Rightarrow> [Log_skip file])
             (process_files parse config rest components)"
  using assms
  by (simp add: process_files.simps(2) skipped_def getComponentDoc_def split: sum.splits)

text \<open>One turn of the loop on a file that is not skipped.\<close>

lemma process_files_kept:
  assumes "index_entry_of parse file = Some entry"
  shows "\<exists>docData. parse file = Inr docData \<and>
           process_files parse config (file # rest) components =
             (case component_page config docData (entry_name entry) of
                (outputFile, Inl e) \<Rightarrow> ([], components @ [entry], Some e)
              | (outputFile, Inr content) \<Rightarrow>
                  after [WriteFile (outDir config) outputFile content,
                         Log_generated (outDir config) outputFile]
                    (process_files parse config rest (components @ [entry])))"
  using assms
  by (auto simp add: process_files.simps(2) index_entry_of_def getComponentDoc_def Let_def
      split: sum.splits if_splits prod.splits)

text \<open>The loop over two lists in a row.\<close>

lemma process_files_append:
  "process_files parse config (xs @ ys) components =
     (case process_files parse config xs components of
        (fx, cs, Some e) \<Rightarrow> (fx, cs, Some e)
      | (fx, cs, None) \<Rightarrow> after fx (process_files parse config ys cs))"
proof (induction xs arbitrary: components)
  case Nil
  show ?case by (simp add: after_Nil)
next
  case (Cons f xs)
  show ?case
  proof (cases "index_entry_of parse f")
    case None
    then have "skipped parse f" by (simp add: skipped_iff)
    then show ?thesis
      by (simp only: append_Cons process_files_skipped Cons.IH)
        (simp add: after_def split: prod.splits option.splits)
  next
    case (Some entry)
    from process_files_kept [OF Some, of config "xs @ ys" components]
      process_files_kept [OF Some, of config xs components]
    show ?thesis
      by (auto simp only: append_Cons Cons.IH split: prod.splits sum.splits option.splits)
        (auto simp add: after_def split: prod.splits option.splits)
  qed
qed

lemma process_files_kept_None:
  assumes "index_entry_of parse f = Some entry"
    and "process_files parse config (f # rest) components = (fx, cs, None)"
  shows "\<exists>outputFile content fx'.
           fx = WriteFile (outDir config) outputFile content #
                Log_generated (outDir config) outputFile # fx' \<and>
           process_files parse config rest (components @ [entry]) = (fx', cs, None)"
proof -
  from process_files_kept [OF assms(1), of config rest components]
  obtain docData where step: "process_files parse config (f # rest) components =
             (case component_page config docData (entry_name entry) of
                (outputFile, Inl e) \<Rightarrow> ([], components @ [entry], Some e)
              | (outputFile, Inr content) \<Rightarrow>
                  after [WriteFile (outDir config) outputFile content,
                         Log_generated (outDir config) outputFile]
                    (process_files parse config rest (components @ [entry])))"
    by blast
  obtain outputFile r where page: "component_page config docData (entry_name entry) = (outputFile, r)"
    by (cases "component_page config docData (entry_name entry)") auto
  show ?thesis
  proof (cases r)
    case (Inl e)
    with step page assms(2) show ?thesis by simp
  next
    case (Inr content)
    obtain fx' cs' err' where rest: "process_files parse config rest (components @ [entry]) = (fx', cs', err')"
      by (cases "process_files parse config rest (components @ [entry])") auto
    with step page Inr assms(2) show ?thesis by (simp add: after_def)
  qed
qed

lemma process_files_components:
  "process_files parse config files components = (fx, cs, None) \<Longrightarrow>
   cs = components @ List.map_filter (index_entry_of parse) files"
proof (induction files arbitrary: components fx)
  case Nil
  then show ?case by (simp add: List.map_filter_simps)
next
  case (Cons f files)
  show ?case
  proof (cases "index_entry_of parse f")
    case None
    then have "skipped parse f" by (simp add: skipped_iff)
    from Cons.prems process_files_skipped [OF this, of config files components]
    obtain fx' where "process_files parse config files components = (fx', cs, None)"
      by (auto simp add: after_def split: prod.splits)
    from Cons.IH [OF this] None show ?thesis by (simp add: List.map_filter_simps)
  next
    case (Some entry)
    from process_files_kept_None [OF Some Cons.prems]
    obtain fx' where "process_files parse config files (components @ [entry]) = (fx', cs, None)"
      by blast
    from Cons.IH [OF this] Some show ?thesis by (simp add: List.map_filter_simps)
  qed
qed

lemma process_files_skip_logged:
  "process_files parse config files components = (fx, cs, None) \<Longrightarrow>
   f \<in> set files \<Longrightarrow> skipped parse f \<Longrightarrow> Log_skip f \<in> set fx"
proof (induction files arbitrary: components fx)
  case Nil
  then show ?case by simp
next
  case (Cons g files)
  show ?case
  proof (cases "index_entry_of parse g")
    case None
    then have g: "skipped parse g" by (simp add: skipped_iff)
    from Cons.prems(1) process_files_skipped [OF g, of config files components]
    obtain fx' where rest: "process_files parse config files components = (fx', cs, None)"
      and fx: "fx = (case parse g of Inl message \<Rightarrow> [Error_parse g message, Log_skip g]
                     | Inr docData \<Rightarrow> [Log_skip g]) @ fx'"
      by (auto simp add: after_def split: prod.splits)
    show ?thesis
    proof (cases "f = g")
      case True
      with fx show ?thesis by (simp split: sum.splits)
    next
      case False
      with Cons.prems(2) have "f \<in> set files" by simp
      from Cons.IH [OF rest this Cons.prems(3)] fx show ?thesis by simp
    qed
  next
    case (Some entry)
    with Cons.prems(3) have "f \<noteq> g" by (auto simp: skipped_iff)
    with Cons.prems(2) have mem: "f \<in> set files" by simp
    from process_files_kept_None [OF Some Cons.prems(1)]
    obtain fx' fx0 where rest: "process_files parse config files (components @ [entry]) = (fx', cs, None)"
      and fx: "fx = fx0 @ fx'"
      by (metis append_Cons append_Nil)
    from Cons.IH [OF rest mem Cons.prems(3)] fx show ?thesis by simp
  qed
qed

lemma process_files_skipped_erased:
  assumes "skipped parse f"
  shows "written (fst (process_files parse config (before @ f # rest) components)) =
         written (fst (process_files parse config (before @ rest) components)) \<and>
         snd (process_files parse config (before @ f # rest) components) =
         snd (process_files parse config (before @ rest) components)"
proof -
  obtain fx cs err where b: "process_files parse config before components = (fx, cs, err)"
    by (cases "process_files parse config before components") auto
  show ?thesis
  proof (cases err)
    case (Some e)
    with b show ?thesis by (simp add: process_files_append)
  next
    case None
    have "written (case parse f of Inl message \<Rightarrow> [Error_parse f message, Log_skip f]
                   | Inr docData \<Rightarrow> [Log_skip f]) = []"
      by (simp split: sum.splits)
    with b None show ?thesis
      by (simp add: process_files_append process_files_skipped [OF assms] after_after
          fst_after snd_after written_append)
  qed
qed

text \<open>
  \<^bold>\<open>C3\<close>.  When \<open>parse\<close> raises on a file, or returns a document without a display name:
  the turn of the loop on the file only prints (the error of \<open>getComponentDoc\<close> when
  \<open>parse\<close> raised, then the line of line 480 with the file) and goes on with the files
  that are left, from the same list of components; wherever the file stands in the list,
  the loop writes the same files, ends with the same list of components and ends in the
  same way as on the list without the file; the file has no entry of the index; and a
  loop that is not ended by an exception has printed the line of the file.
\<close>

theorem skipped_file_is_logged_and_left_out:
  assumes "skipped parse file"
  shows "process_files parse config (file # rest) components =
           after (case parse file of
                    Inl message \<Rightarrow> [Error_parse file message, Log_skip file]
                  | Inr docData \<Rightarrow> [Log_skip file])
             (process_files parse config rest components) \<and>
         written (fst (process_files parse config (before @ file # rest) components)) =
           written (fst (process_files parse config (before @ rest) components)) \<and>
         snd (process_files parse config (before @ file # rest) components) =
           snd (process_files parse config (before @ rest) components) \<and>
         index_entry_of parse file = None \<and>
         (snd (snd (process_files parse config (before @ file # rest) components)) = None \<longrightarrow>
            Log_skip file \<in> set (fst (process_files parse config (before @ file # rest) components)))"
proof (intro conjI impI)
  show "process_files parse config (file # rest) components =
           after (case parse file of
                    Inl message \<Rightarrow> [Error_parse file message, Log_skip file]
                  | Inr docData \<Rightarrow> [Log_skip file])
             (process_files parse config rest components)"
    using assms by (rule process_files_skipped)
  show "written (fst (process_files parse config (before @ file # rest) components)) =
           written (fst (process_files parse config (before @ rest) components))"
    and "snd (process_files parse config (before @ file # rest) components) =
           snd (process_files parse config (before @ rest) components)"
    using process_files_skipped_erased [OF assms] by blast+
  show "index_entry_of parse file = None"
    using assms by (simp add: skipped_iff)
next
  assume "snd (snd (process_files parse config (before @ file # rest) components)) = None"
  then obtain fx cs where "process_files parse config (before @ file # rest) components = (fx, cs, None)"
    by (cases "process_files parse config (before @ file # rest) components") auto
  from process_files_skip_logged [OF this _ assms]
  show "Log_skip file \<in> set (fst (process_files parse config (before @ file # rest) components))"
    using \<open>process_files parse config (before @ file # rest) components = (fx, cs, None)\<close>
    by simp
qed

theorem skipped_file_is_logged_and_left_out_witness:
  "skipped sample_parse ''/app/src/components/Broken.vue'' \<and>
   skipped sample_parse ''/app/src/components/Anonymous.vue'' \<and>
   process_files sample_parse default_config
     [''/app/src/components/Broken.vue'', ''/app/src/components/Anonymous.vue''] [] =
     ([Error_parse ''/app/src/components/Broken.vue'' ''Unexpected token'',
       Log_skip ''/app/src/components/Broken.vue'',
       Log_skip ''/app/src/components/Anonymous.vue''], [], None) \<and>
   written (fst (process_files sample_parse default_config
     [''/app/src/components/Anonymous.vue'', ''/app/src/components/Broken.vue''] [])) = [] \<and>
   Log_skip ''/app/src/components/Broken.vue'' \<in> set (fst (process_files sample_parse default_config
     [''/app/src/components/Anonymous.vue'', ''/app/src/components/Broken.vue''] []))"
proof -
  let ?b = "''/app/src/components/Broken.vue''" and ?a = "''/app/src/components/Anonymous.vue''"
  have b: "skipped sample_parse ?b" and a: "skipped sample_parse ?a"
    by (simp_all add: skipped_def sample_parse_def truthy_def)
  note tb = skipped_file_is_logged_and_left_out [OF b, of default_config]
    and ta = skipped_file_is_logged_and_left_out [OF a, of default_config]
  from ta [of "[]" "[]" "[]"]
  have pa: "process_files sample_parse default_config [?a] [] = ([Log_skip ?a], [], None)"
    by (simp add: after_def sample_parse_def)
  from tb [of "[]" "[]" "[]"]
  have pb: "process_files sample_parse default_config [?b] [] =
      ([Error_parse ?b ''Unexpected token'', Log_skip ?b], [], None)"
    by (simp add: after_def sample_parse_def)
  from tb [of "[?a]" "[]" "[]"] pa
  have 1: "process_files sample_parse default_config [?b, ?a] [] =
     ([Error_parse ?b ''Unexpected token'', Log_skip ?b, Log_skip ?a], [], None)"
    by (simp add: after_def sample_parse_def)
  from ta [of "[?b]" "[]" "[]"] pb
  have pab: "process_files sample_parse default_config [?a, ?b] [] =
     ([Log_skip ?a, Error_parse ?b ''Unexpected token'', Log_skip ?b], [], None)"
    by (simp add: after_def sample_parse_def)
  from pab have 2: "written (fst (process_files sample_parse default_config [?a, ?b] [])) = []"
    by simp
  from pab have 3: "Log_skip ?b \<in> set (fst (process_files sample_parse default_config [?a, ?b] []))"
    by simp
  from a b 1 2 3 show ?thesis by blast
qed

subsection \<open>Loading the configuration\<close>

lemma run_with_config_configFile:
  "run_with_config (e\<lparr>env_configFile := cf\<rparr>) config = run_with_config e config"
  by (simp add: run_with_config_def cong: if_cong option.case_cong)

lemma main_run:
  "main e = (Log_running # snd (loadConfig (env_configFile e) default_config) @
               fst (run_with_config e (fst (loadConfig (env_configFile e) default_config))),
             snd (run_with_config e (fst (loadConfig (env_configFile e) default_config))))"
  by (simp add: main_def split: prod.splits)

lemma map_add_self: "m ++ m = m"
  by (rule ext) (simp add: map_add_def split: option.splits)

lemma loadConfig_customContent:
  "c_customContent customConfig = Some cc \<Longrightarrow>
   customContent (fst (loadConfig (Parsed customConfig) config)) = cc"
  by (simp add: loadConfig_def assign_def Let_def map_add_self)

lemma loadConfig_bad_docType:
  assumes "c_docType customConfig = Some t" and "t \<noteq> ''html''" and "t \<noteq> ''md''"
  shows "snd (loadConfig (Parsed customConfig) config) = [Warn_docType t]"
    and "fst (loadConfig (Parsed customConfig) config) =
         fst (loadConfig (Parsed (customConfig\<lparr>c_docType := Some ''html''\<rparr>)) config)"
    and "snd (loadConfig (Parsed (customConfig\<lparr>c_docType := Some ''html''\<rparr>)) config) = []"
    and "docType (fst (loadConfig (Parsed customConfig) config)) = ''html''"
  using assms
  by (simp_all add: loadConfig_def assign_def Let_def split: option.splits)

subsection \<open>The names of the files that are written\<close>

lemma component_page_name:
  "fst (component_page config docData componentName) =
     componentName @ (if docType config = ''md'' then ''.md'' else ''.html'')"
  by (simp add: component_page_def)

lemma process_files_written:
  "(dir, name, content) \<in> set (written (fst (process_files parse config files components))) \<Longrightarrow>
   dir = outDir config \<and>
   suffix (if docType config = ''md'' then ''.md'' else ''.html'') name"
proof (induction files arbitrary: components)
  case Nil
  then show ?case by simp
next
  case (Cons f files)
  show ?case
  proof (cases "index_entry_of parse f")
    case None
    then have "skipped parse f" by (simp add: skipped_iff)
    from Cons.prems process_files_skipped [OF this, of config files components]
    have "(dir, name, content) \<in> set (written (fst (process_files parse config files components)))"
      by (simp add: fst_after written_append split: sum.splits)
    then show ?thesis by (rule Cons.IH)
  next
    case (Some entry)
    from process_files_kept [OF Some, of config files components]
    obtain docData where step: "process_files parse config (f # files) components =
             (case component_page config docData (entry_name entry) of
                (outputFile, Inl e) \<Rightarrow> ([], components @ [entry], Some e)
              | (outputFile, Inr content) \<Rightarrow>
                  after [WriteFile (outDir config) outputFile content,
                         Log_generated (outDir config) outputFile]
                    (process_files parse config files (components @ [entry])))"
      by blast
    obtain outputFile r where page: "component_page config docData (entry_name entry) = (outputFile, r)"
      by (cases "component_page config docData (entry_name entry)") auto
    then have name: "outputFile = entry_name entry @ (if docType config = ''md'' then ''.md'' else ''.html'')"
      using component_page_name [of config docData "entry_name entry"] by simp
    show ?thesis
    proof (cases r)
      case (Inl e)
      with step page Cons.prems show ?thesis by simp
    next
      case (Inr content')
      with step page Cons.prems
      have "(dir, name, content) = (outDir config, outputFile, content') \<or>
            (dir, name, content) \<in> set (written (fst (process_files parse config files (components @ [entry]))))"
        by (simp add: fst_after)
      then show ?thesis
      proof
        assume "(dir, name, content) = (outDir config, outputFile, content')"
        with name show ?thesis by (simp add: suffix_def)
      next
        assume "(dir, name, content) \<in> set (written (fst (process_files parse config files (components @ [entry]))))"
        then show ?thesis by (rule Cons.IH)
      qed
    qed
  qed
qed

lemma written_write_index:
  "written (write_index readFile config components) =
     [(outDir config,
       if docType config = ''md'' then ''index.md'' else ''index.html'',
       if docType config = ''md''
       then indexMarkdown config (fst (readCustomContent readFile config)) components
       else indexHtml config (fst (readCustomContent readFile config)) components)]"
proof -
  have "written (snd (readCustomContent readFile config)) = []"
    by (simp add: readCustomContent_def split: option.splits fileRead.splits)
  then show ?thesis
    by (cases "readCustomContent readFile config") (simp add: write_index_def written_append)
qed

lemma written_ensureDir: "written (ensureDir dirExists dir) = []"
  by (simp add: ensureDir_def)

lemma run_with_config_written:
  assumes "(dir, name, content) \<in> set (written (fst (run_with_config e config)))"
  shows "dir = outDir config \<and>
         suffix (if docType config = ''md'' then ''.md'' else ''.html'') name"
proof (cases "env_findVueFiles e (componentsDir config)")
  case None
  with assms show ?thesis
    by (simp add: run_with_config_def written_append written_ensureDir)
next
  case (Some vueFiles)
  show ?thesis
  proof (cases "vueFiles = []")
    case True
    with Some assms show ?thesis
      by (simp add: run_with_config_def written_append written_ensureDir)
  next
    case False
    obtain fx2 cs err where loop: "process_files (env_parse e) config vueFiles [] = (fx2, cs, err)"
      by (cases "process_files (env_parse e) config vueFiles []") auto
    from process_files_written [of dir name content "env_parse e" config vueFiles "[]"] loop
    have pages: "(dir, name, content) \<in> set (written fx2) \<Longrightarrow> ?thesis"
      by simp
    show ?thesis
    proof (cases err)
      case (Some x)
      with \<open>env_findVueFiles e (componentsDir config) = Some vueFiles\<close> False loop assms
      have "(dir, name, content) \<in> set (written fx2)"
        by (simp add: run_with_config_def written_append written_ensureDir)
      then show ?thesis by (rule pages)
    next
      case None
      with \<open>env_findVueFiles e (componentsDir config) = Some vueFiles\<close> False loop assms
      have "(dir, name, content) \<in> set (written fx2) \<or>
            (dir, name, content) \<in> set (written (write_index (env_readFile e) config cs))"
        by (simp add: run_with_config_def written_append written_ensureDir)
      then show ?thesis
      proof
        assume "(dir, name, content) \<in> set (written fx2)"
        then show ?thesis by (rule pages)
      next
        assume "(dir, name, content) \<in> set (written (write_index (env_readFile e) config cs))"
        then show ?thesis by (auto simp add: written_write_index suffix_def)
      qed
    qed
  qed
qed

subsection \<open>A run on the sample environment\<close>

lemma sample_doc_markdown: "\<exists>md. generateComponentMarkdown sample_doc = Inr md"
  unfolding generateComponentMarkdown_Inr_iff by (simp add: sample_doc_def)

lemma sample_loop:
  assumes "component_page config sample_doc ''Button'' = (outputFile, Inr content)"
  shows "process_files sample_parse config
           [''/app/src/components/Broken.vue'', ''/app/src/components/Button.vue'',
            ''/app/src/components/Anonymous.vue''] [] =
         ([Error_parse ''/app/src/components/Broken.vue'' ''Unexpected token'',
           Log_skip ''/app/src/components/Broken.vue'',
           WriteFile (outDir config) outputFile content,
           Log_generated (outDir config) outputFile,
           Log_skip ''/app/src/components/Anonymous.vue''],
          [\<lparr>entry_name = ''Button'', entry_description = ''A <b>button</b>''\<rparr>],
          None)"
proof -
  have name: "displayName sample_doc = Some ''Button''"
    and descr: "description sample_doc = Some ''A <b>button</b>''"
    by (simp_all add: sample_doc_def)
  have 3: "process_files sample_parse config [''/app/src/components/Anonymous.vue'']
             [\<lparr>entry_name = ''Button'', entry_description = ''A <b>button</b>''\<rparr>] =
           ([Log_skip ''/app/src/components/Anonymous.vue''],
            [\<lparr>entry_name = ''Button'', entry_description = ''A <b>button</b>''\<rparr>], None)"
    by (simp add: process_files.simps(2) getComponentDoc_def sample_parse_def truthy_def
        after_def)
  have 2: "process_files sample_parse config
             [''/app/src/components/Button.vue'', ''/app/src/components/Anonymous.vue''] [] =
           ([WriteFile (outDir config) outputFile content,
             Log_generated (outDir config) outputFile,
             Log_skip ''/app/src/components/Anonymous.vue''],
            [\<lparr>entry_name = ''Button'', entry_description = ''A <b>button</b>''\<rparr>], None)"
    by (subst process_files.simps(2))
      (simp add: getComponentDoc_def sample_parse_def truthy_def or_else_def after_def
        name descr assms 3)
  show ?thesis
    by (subst process_files.simps(2))
      (simp add: getComponentDoc_def sample_parse_def after_def 2)
qed

lemma sample_run:
  assumes "component_page config sample_doc ''Button'' = (outputFile, Inr content)"
  shows "run_with_config (sample_env cf) config =
         ([Log_config config, Mkdir (outDir config), Log_searching (componentsDir config),
           Log_found 3,
           Error_parse ''/app/src/components/Broken.vue'' ''Unexpected token'',
           Log_skip ''/app/src/components/Broken.vue'',
           WriteFile (outDir config) outputFile content,
           Log_generated (outDir config) outputFile,
           Log_skip ''/app/src/components/Anonymous.vue''] @
          write_index (\<lambda>path. FileMissing) config
            [\<lparr>entry_name = ''Button'', entry_description = ''A <b>button</b>''\<rparr>],
          Completed)"
  by (simp add: run_with_config_def sample_env_def ensureDir_def sample_loop [OF assms])

lemma sample_page_html:
  "docType config \<noteq> ''md'' \<Longrightarrow>
   \<exists>content. component_page config sample_doc ''Button'' = (''Button.html'', Inr content)"
  using sample_doc_html [of "docName config" "''Button''"]
  by (auto simp add: component_page_def)

lemma sample_page_md:
  "docType config = ''md'' \<Longrightarrow>
   \<exists>content. component_page config sample_doc ''Button'' = (''Button.md'', Inr content)"
  using sample_doc_markdown
  by (auto simp add: component_page_def)

lemma alert_page:
  "\<exists>content. component_page config alert_doc ''Alert'' =
     (''Alert'' @ (if docType config = ''md'' then ''.md'' else ''.html''), Inr content)"
proof -
  have typed: "\<forall>ps n p. props alert_doc = Some ps \<and> (n, p) \<in> set ps \<longrightarrow> prop_type p \<noteq> None"
    by (simp add: alert_doc_def sample_doc_def)
  from typed obtain md where "generateComponentMarkdown alert_doc = Inr md"
    unfolding generateComponentMarkdown_Inr_iff [symmetric] by blast
  moreover from typed obtain html
    where "generateComponentHtml alert_doc (docName config) ''Alert'' = Inr html"
    unfolding generateComponentHtml_Inr_iff [symmetric, of alert_doc "docName config" "''Alert''"]
    by blast
  ultimately show ?thesis by (simp add: component_page_def)
qed

lemma button_page:
  "\<exists>content. component_page config sample_doc ''Button'' =
     (''Button'' @ (if docType config = ''md'' then ''.md'' else ''.html''), Inr content)"
  using sample_page_md [of config] sample_page_html [of config] by auto

lemma listing_run:
  "\<exists>fx. run_with_config (listing_env cf) config = (fx, Completed)"
proof -
  let ?parse = "env_parse (listing_env cf)"
  let ?button = "\<lparr>entry_name = ''Button'', entry_description = ''A <b>button</b>''\<rparr>"
  let ?alert = "\<lparr>entry_name = ''Alert'', entry_description = []\<rparr>"
  obtain n1 c1 where p1: "component_page config sample_doc ''Button'' = (n1, Inr c1)"
    using button_page [of config] by blast
  obtain n2 c2 where p2: "component_page config alert_doc ''Alert'' = (n2, Inr c2)"
    using alert_page [of config] by blast
  have name: "displayName sample_doc = Some ''Button''"
    and descr: "description sample_doc = Some ''A <b>button</b>''"
    by (simp_all add: sample_doc_def)
  have aname: "displayName alert_doc = Some ''Alert''" and adescr: "description alert_doc = None"
    by (simp_all add: alert_doc_def)
  have 3: "process_files ?parse config [''/app/src/components/Alert.vue''] [?button] =
           ([WriteFile (outDir config) n2 c2, Log_generated (outDir config) n2],
            [?button, ?alert], None)"
    by (simp add: process_files.simps(2) getComponentDoc_def listing_env_def truthy_def
        or_else_def after_def aname adescr p2)
  have 2: "process_files ?parse config
             [''/app/src/components/Broken.vue'', ''/app/src/components/Alert.vue''] [?button] =
           ([Error_parse ''/app/src/components/Broken.vue'' ''Unexpected token'',
             Log_skip ''/app/src/components/Broken.vue'',
             WriteFile (outDir config) n2 c2, Log_generated (outDir config) n2],
            [?button, ?alert], None)"
    by (subst process_files.simps(2))
      (simp add: getComponentDoc_def listing_env_def sample_parse_def after_def
         3 [unfolded listing_env_def, simplified])
  have 1: "process_files ?parse config
             [''/app/src/components/Button.vue'', ''/app/src/components/Broken.vue'',
              ''/app/src/components/Alert.vue''] [] =
           ([WriteFile (outDir config) n1 c1, Log_generated (outDir config) n1,
             Error_parse ''/app/src/components/Broken.vue'' ''Unexpected token'',
             Log_skip ''/app/src/components/Broken.vue'',
             WriteFile (outDir config) n2 c2, Log_generated (outDir config) n2],
            [?button, ?alert], None)"
    by (subst process_files.simps(2))
      (simp add: getComponentDoc_def listing_env_def sample_parse_def truthy_def or_else_def
         after_def name descr p1 2 [unfolded listing_env_def, simplified])
  show ?thesis
    using 1 by (simp add: run_with_config_def listing_env_def sample_env_def)
qed


subsection \<open>An override file that cannot be parsed\<close>

text \<open>
  \<^bold>\<open>C7\<close>.  When \<open>component.doc.json\<close> is there and reading or parsing it raises,
  \<open>loadConfig\<close> prints the message and leaves \<open>config\<close> as it was, so that every field has
  its default; and the run is the run without an override file, with the error printed
  after the first line.
\<close>

theorem unparsable_config_keeps_defaults:
  assumes "env_configFile e = Unparsable message"
  shows "loadConfig (env_configFile e) config = (config, [Error_loadConfig message]) \<and>
         fst (loadConfig (env_configFile e) default_config) = default_config \<and>
         fst (loadConfig NoFile default_config) = default_config \<and>
         main e =
           (Log_running # Error_loadConfig message #
              tl (fst (main (e\<lparr>env_configFile := NoFile\<rparr>))),
            snd (main (e\<lparr>env_configFile := NoFile\<rparr>)))"
  using assms
  by (simp add: main_run run_with_config_configFile) (simp add: loadConfig_def)

theorem unparsable_config_keeps_defaults_witness:
  "env_configFile (sample_env (Unparsable ''Unexpected end of JSON input'')) =
     Unparsable ''Unexpected end of JSON input'' \<and>
   loadConfig (Unparsable ''Unexpected end of JSON input'') default_config =
     (default_config, [Error_loadConfig ''Unexpected end of JSON input'']) \<and>
   (\<exists>content.
      main (sample_env (Unparsable ''Unexpected end of JSON input'')) =
        ([Log_running, Error_loadConfig ''Unexpected end of JSON input'',
          Log_config default_config, Mkdir ''dist/component-doc'',
          Log_searching ''src/components'', Log_found 3,
          Error_parse ''/app/src/components/Broken.vue'' ''Unexpected token'',
          Log_skip ''/app/src/components/Broken.vue'',
          WriteFile ''dist/component-doc'' ''Button.html'' content,
          Log_generated ''dist/component-doc'' ''Button.html'',
          Log_skip ''/app/src/components/Anonymous.vue'',
          WriteFile ''dist/component-doc'' ''index.html''
            (indexHtml default_config []
               [\<lparr>entry_name = ''Button'', entry_description = ''A <b>button</b>''\<rparr>]),
          Log_index_html ''dist/component-doc'', Log_done],
         Completed))"
proof -
  let ?e = "sample_env (Unparsable ''Unexpected end of JSON input'')"
  have cf: "env_configFile ?e = Unparsable ''Unexpected end of JSON input''"
    by (simp add: sample_env_def)
  note t = unparsable_config_keeps_defaults [OF cf]
  have html: "docType default_config \<noteq> ''md''" by (simp add: default_config_def)
  from sample_page_html [OF html] obtain content
    where page: "component_page default_config sample_doc ''Button'' = (''Button.html'', Inr content)"
    by blast
  have e: "?e\<lparr>env_configFile := NoFile\<rparr> = sample_env NoFile"
    by (simp add: sample_env_def)
  have "main (sample_env NoFile) =
      (Log_running # fst (run_with_config (sample_env NoFile) default_config),
       snd (run_with_config (sample_env NoFile) default_config))"
    by (simp add: main_run) (simp add: sample_env_def loadConfig_def)
  with t [of default_config] e
  have "main ?e =
      (Log_running # Error_loadConfig ''Unexpected end of JSON input'' #
         fst (run_with_config (sample_env NoFile) default_config),
       snd (run_with_config (sample_env NoFile) default_config))"
    by simp
  then have m: "main ?e =
        ([Log_running, Error_loadConfig ''Unexpected end of JSON input'',
          Log_config default_config, Mkdir ''dist/component-doc'',
          Log_searching ''src/components'', Log_found 3,
          Error_parse ''/app/src/components/Broken.vue'' ''Unexpected token'',
          Log_skip ''/app/src/components/Broken.vue'',
          WriteFile ''dist/component-doc'' ''Button.html'' content,
          Log_generated ''dist/component-doc'' ''Button.html'',
          Log_skip ''/app/src/components/Anonymous.vue'',
          WriteFile ''dist/component-doc'' ''index.html''
            (indexHtml default_config []
               [\<lparr>entry_name = ''Button'', entry_description = ''A <b>button</b>''\<rparr>]),
          Log_index_html ''dist/component-doc'', Log_done],
         Completed)"
    by (simp add: sample_run [OF page] write_index_def readCustomContent_def)
      (simp add: default_config_def)
  from t [of default_config] cf
  have lc: "loadConfig (Unparsable ''Unexpected end of JSON input'') default_config =
     (default_config, [Error_loadConfig ''Unexpected end of JSON input''])"
    by simp
  from cf lc m show ?thesis by blast
qed

subsection \<open>An override file with an unrecognised format\<close>

text \<open>
  \<^bold>\<open>C5\<close>.  When the override file sets \<open>docType\<close> to a value that is neither \<open>html\<close>
  nor \<open>md\<close>: \<open>loadConfig\<close> returns, with \<open>docType\<close> set to \<open>html\<close> and the warning of line
  50 printed; every file the run writes, the pages and the index, has a name that ends
  in \<open>.html\<close>; and the run is the run of the same override file with \<open>docType\<close> set to
  \<open>html\<close>, with the warning printed after the first line.
\<close>

theorem unrecognised_docType_falls_back_to_html:
  assumes "env_configFile e = Parsed customConfig"
    and "c_docType customConfig = Some t" and "t \<noteq> ''html''" and "t \<noteq> ''md''"
  shows "docType (fst (loadConfig (env_configFile e) default_config)) = ''html'' \<and>
         snd (loadConfig (env_configFile e) default_config) = [Warn_docType t] \<and>
         list_all (\<lambda>(dir, name, content). suffix ''.html'' name) (written (fst (main e))) \<and>
         main e =
           (Log_running # Warn_docType t #
              tl (fst (main (e\<lparr>env_configFile := Parsed (customConfig\<lparr>c_docType := Some ''html''\<rparr>)\<rparr>))),
            snd (main (e\<lparr>env_configFile := Parsed (customConfig\<lparr>c_docType := Some ''html''\<rparr>)\<rparr>)))"
proof (intro conjI)
  let ?config = "fst (loadConfig (Parsed customConfig) default_config)"
  note bad = loadConfig_bad_docType [OF assms(2-4), of default_config]
  show html: "docType (fst (loadConfig (env_configFile e) default_config)) = ''html''"
    using bad(4) assms(1) by simp
  show "snd (loadConfig (env_configFile e) default_config) = [Warn_docType t]"
    using bad(1) assms(1) by simp
  have "written (fst (main e)) = written (fst (run_with_config e ?config))"
    using assms(1) bad(1) by (simp add: main_run)
  moreover have "\<forall>x \<in> set (written (fst (run_with_config e ?config))).
      case x of (dir, name, content) \<Rightarrow> suffix ''.html'' name"
    using run_with_config_written [of _ _ _ e ?config] bad(4) by auto
  ultimately show "list_all (\<lambda>(dir, name, content). suffix ''.html'' name) (written (fst (main e)))"
    by (simp add: list_all_iff)
  show "main e =
           (Log_running # Warn_docType t #
              tl (fst (main (e\<lparr>env_configFile := Parsed (customConfig\<lparr>c_docType := Some ''html''\<rparr>)\<rparr>))),
            snd (main (e\<lparr>env_configFile := Parsed (customConfig\<lparr>c_docType := Some ''html''\<rparr>)\<rparr>)))"
    using assms(1) bad(1,3) bad(2) [symmetric]
    by (simp add: main_run run_with_config_configFile)
qed

theorem unrecognised_docType_falls_back_to_html_witness:
  "env_configFile (sample_env (Parsed (empty_customConfig\<lparr>c_docType := Some ''xml''\<rparr>))) =
     Parsed (empty_customConfig\<lparr>c_docType := Some ''xml''\<rparr>) \<and>
   c_docType (empty_customConfig\<lparr>c_docType := Some ''xml''\<rparr>) = Some ''xml'' \<and>
   ''xml'' \<noteq> ''html'' \<and> ''xml'' \<noteq> ''md'' \<and>
   loadConfig (Parsed (empty_customConfig\<lparr>c_docType := Some ''xml''\<rparr>)) default_config =
     (default_config, [Warn_docType ''xml'']) \<and>
   list_all (\<lambda>(dir, name, content). suffix ''.html'' name)
     (written (fst (main (sample_env (Parsed (empty_customConfig\<lparr>c_docType := Some ''xml''\<rparr>)))))) \<and>
   map (\<lambda>(dir, name, content). name)
     (written (fst (main (sample_env (Parsed (empty_customConfig\<lparr>c_docType := Some ''xml''\<rparr>)))))) =
     [''Button.html'', ''index.html'']"
proof -
  let ?c = "empty_customConfig\<lparr>c_docType := Some ''xml''\<rparr>"
  let ?e = "sample_env (Parsed ?c)"
  have cf: "env_configFile ?e = Parsed ?c" by (simp add: sample_env_def)
  have t: "c_docType ?c = Some ''xml''" by simp
  have x: "''xml'' \<noteq> ''html''" "''xml'' \<noteq> ''md''" by simp_all
  note th = unrecognised_docType_falls_back_to_html [OF cf t x]
  have lc: "loadConfig (Parsed ?c) default_config = (default_config, [Warn_docType ''xml''])"
    by (simp add: loadConfig_def assign_def empty_customConfig_def default_config_def)
  have html: "docType default_config \<noteq> ''md''" by (simp add: default_config_def)
  from sample_page_html [OF html] obtain content
    where page: "component_page default_config sample_doc ''Button'' = (''Button.html'', Inr content)"
    by blast
  have names: "map (\<lambda>(dir, name, content). name) (written (fst (main ?e))) =
      [''Button.html'', ''index.html'']"
    using cf lc
    by (simp add: main_run sample_run [OF page] written_write_index)
      (simp add: default_config_def)
  from th have la: "list_all (\<lambda>(dir, name, content). suffix ''.html'' name)
      (written (fst (main ?e)))"
    by blast
  from cf t x lc la names show ?thesis by blast
qed

subsection \<open>An override file with a part of \<open>customContent\<close>\<close>

text \<open>
  \<^bold>\<open>C4\<close>.  What \<open>loadConfig\<close> does on the override file
  \<open>{"customContent": {"md": "docs/install.md"}}\<close>: \<open>Object.assign\<close> at line 38 has
  already put the object of the override in \<open>config.customContent\<close> when lines 41 to 46
  spread \<open>config.customContent\<close> and \<open>customConfig.customContent\<close> together, so the
  result holds the key \<open>md\<close> only and the default \<open>''\<close> of the key \<open>html\<close> is gone.
\<close>

theorem partial_customContent_loses_default:
  "customContent default_config ''html'' = Some [] \<and>
   customContent
     (fst (loadConfig
        (Parsed (empty_customConfig\<lparr>c_customContent := Some [''md'' \<mapsto> ''docs/install.md'']\<rparr>))
        default_config)) ''html'' = None \<and>
   customContent
     (fst (loadConfig
        (Parsed (empty_customConfig\<lparr>c_customContent := Some [''md'' \<mapsto> ''docs/install.md'']\<rparr>))
        default_config)) ''md'' = Some ''docs/install.md''"
  by (simp add: loadConfig_customContent) (simp add: default_config_def)

subsection \<open>The index page\<close>

lemma md_index_entry_body:
  \<open>md_index_entry =
     (\<lambda>component index indexMdContent. indexMdContent @
        (''- ['' @ entry_name component @ ''](''  @ entry_name component @ ''.md)\<newline>'' @
         (if entry_description component \<noteq> []
          then ''  '' @ entry_description component @ ''\<newline>\<newline>''
          else ''\<newline>'')))\<close>
  by (intro ext) (simp add: md_index_entry_def Let_def)

lemma concat_map_enumerate:
  "concat (map (\<lambda>(i, x). h x) (enumerate k xs)) = concat (map h xs)"
  by (induction xs arbitrary: k) simp_all

lemma indexMarkdown_lines:
  \<open>indexMarkdown config content components =
     (''# '' @ docName config @ ''\<newline>\<newline>'' @
      (if docDescription config \<noteq> [] then docDescription config @ ''\<newline>\<newline>'' else []) @
      (if content \<noteq> [] then content @ ''\<newline>\<newline>'' else []) @
      ''## '' @ zh_component_list @ ''\<newline>\<newline>'') @
     concat (map (\<lambda>component.
        ''- ['' @ entry_name component @ ''](''  @ entry_name component @ ''.md)\<newline>'' @
        (if entry_description component \<noteq> []
         then ''  '' @ entry_description component @ ''\<newline>\<newline>''
         else ''\<newline>'')) components)\<close>
  unfolding indexMarkdown_def md_index_entry_body Let_def
  by (simp add: forEach_concat concat_map_enumerate)

lemma run_with_config_Completed:
  assumes "run_with_config e config = (fx, Completed)"
  shows "\<exists>vueFiles fx'.
           env_findVueFiles e (componentsDir config) = Some vueFiles \<and> vueFiles \<noteq> [] \<and>
           fx = fx' @ write_index (env_readFile e) config
                        (List.map_filter (index_entry_of (env_parse e)) vueFiles)"
proof (cases "env_findVueFiles e (componentsDir config)")
  case None
  with assms show ?thesis by (simp add: run_with_config_def)
next
  case (Some vueFiles)
  show ?thesis
  proof (cases "vueFiles = []")
    case True
    with Some assms show ?thesis by (simp add: run_with_config_def)
  next
    case False
    obtain fx2 cs err where loop: "process_files (env_parse e) config vueFiles [] = (fx2, cs, err)"
      by (cases "process_files (env_parse e) config vueFiles []") auto
    show ?thesis
    proof (cases err)
      case (Some x)
      with \<open>env_findVueFiles e (componentsDir config) = Some vueFiles\<close> False loop assms
      show ?thesis by (simp add: run_with_config_def)
    next
      case None
      with loop have "cs = List.map_filter (index_entry_of (env_parse e)) vueFiles"
        using process_files_components [of "env_parse e" config vueFiles "[]" fx2 cs] by simp
      with \<open>env_findVueFiles e (componentsDir config) = Some vueFiles\<close> False loop None assms
      have "fx = ([Log_config config] @ ensureDir (env_dirExists e) (outDir config) @
                [Log_searching (componentsDir config)] @ [Log_found (length vueFiles)] @ fx2) @
              write_index (env_readFile e) config
                (List.map_filter (index_entry_of (env_parse e)) vueFiles)"
        by (simp add: run_with_config_def)
      with \<open>env_findVueFiles e (componentsDir config) = Some vueFiles\<close> False
      show ?thesis by blast
    qed
  qed
qed

lemma html_index_item_body:
  \<open>html_index_item =
     (\<lambda>component.
        ''<li class="component-item">'' @
        ''<a href="'' @ entry_name component @ ''.html" class="component-link">'' @
        entry_name component @ ''</a>'' @
        (if entry_description component \<noteq> []
         then ''<p class="component-desc">'' @ entry_description component @ ''</p>''
         else []) @
        ''</li>'')\<close>
  by (intro ext) (simp add: html_index_item_def Let_def)

lemma indexHtml_items:
  \<open>indexHtml config content components =
     html_head_open @ docName config @ index_html_style @ docName config @
     index_html_after_heading @
     (if docDescription config \<noteq> []
      then ''<p class="doc-description">'' @ docDescription config @ ''</p>'' else []) @
     index_html_between @ content @ index_html_list_open @
     join ''\<newline>'' (map (\<lambda>component.
        ''<li class="component-item">'' @
        ''<a href="'' @ entry_name component @ ''.html" class="component-link">'' @
        entry_name component @ ''</a>'' @
        (if entry_description component \<noteq> []
         then ''<p class="component-desc">'' @ entry_description component @ ''</p>''
         else []) @
        ''</li>'') components) @ index_html_tail\<close>
  unfolding indexHtml_def html_index_item_body Let_def by simp

lemma map_filter_index_entries:
  "List.map_filter (index_entry_of parse) files =
     map (\<lambda>file. the (index_entry_of parse file)) (filter (\<lambda>file. \<not> skipped parse file) files)"
  by (simp add: List.map_filter_def skipped_iff comp_def)

text \<open>
  \<^bold>\<open>C8\<close>.  A run that reaches its last line ends by writing the index page, and the
  components this page lists are the entries (display name, and description or \<open>''\<close>) of
  the files of \<open>findVueFiles\<close> that are not skipped, in the order of that list.  In
  Markdown the page is its heading lines followed, for each component in turn, by the line
  \<open>- [name](name.md)\<close> and then by two spaces, the description and an empty line when the
  component has a description, or by an empty line when it has none.  In HTML the list
  holds, for each component in turn and with a line break between two of them, a list item
  with a link to \<open>name.html\<close> that shows the name, followed by a paragraph with the
  description when the component has one.
\<close>

theorem index_lists_processed_components_in_order:
  assumes "main e = (fx, Completed)"
  shows \<open>let config = fst (loadConfig (env_configFile e) default_config);
             content = fst (readCustomContent (env_readFile e) config)
         in \<exists>vueFiles fx'.
              env_findVueFiles e (componentsDir config) = Some vueFiles \<and>
              (let components =
                     map (\<lambda>file. the (index_entry_of (env_parse e) file))
                       (filter (\<lambda>file. \<not> skipped (env_parse e) file) vueFiles)
               in (docType config = ''md'' \<longrightarrow>
                     fx = fx' @
                       [WriteFile (outDir config) ''index.md''
                          (indexMarkdown config content components),
                        Log_index_md (outDir config), Log_done] \<and>
                     indexMarkdown config content components =
                       (''# '' @ docName config @ ''\<newline>\<newline>'' @
                        (if docDescription config \<noteq> []
                         then docDescription config @ ''\<newline>\<newline>'' else []) @
                        (if content \<noteq> [] then content @ ''\<newline>\<newline>'' else []) @
                        ''## '' @ zh_component_list @ ''\<newline>\<newline>'') @
                       concat (map (\<lambda>component.
                          ''- ['' @ entry_name component @ ''](''  @ entry_name component @
                          ''.md)\<newline>'' @
                          (if entry_description component \<noteq> []
                           then ''  '' @ entry_description component @ ''\<newline>\<newline>''
                           else ''\<newline>'')) components)) \<and>
                  (docType config \<noteq> ''md'' \<longrightarrow>
                     fx = fx' @
                       [WriteFile (outDir config) ''index.html''
                          (indexHtml config content components),
                        Log_index_html (outDir config), Log_done] \<and>
                     indexHtml config content components =
                       html_head_open @ docName config @ index_html_style @ docName config @
                       index_html_after_heading @
                       (if docDescription config \<noteq> []
                        then ''<p class="doc-description">'' @ docDescription config @ ''</p>''
                        else []) @
                       index_html_between @ content @ index_html_list_open @
                       join ''\<newline>'' (map (\<lambda>component.
                          ''<li class="component-item">'' @
                          ''<a href="'' @ entry_name component @
                          ''.html" class="component-link">'' @
                          entry_name component @ ''</a>'' @
                          (if entry_description component \<noteq> []
                           then ''<p class="component-desc">'' @ entry_description component @
                                ''</p>''
                           else []) @
                          ''</li>'') components) @
                       index_html_tail))\<close>
proof -
  let ?config = "fst (loadConfig (env_configFile e) default_config)"
  obtain content cfx where custom: "readCustomContent (env_readFile e) ?config = (content, cfx)"
    by (cases "readCustomContent (env_readFile e) ?config") auto
  from assms obtain rfx where run: "run_with_config e ?config = (rfx, Completed)"
    and fx: "fx = Log_running # snd (loadConfig (env_configFile e) default_config) @ rfx"
    by (cases "run_with_config e ?config") (simp add: main_run)
  from run_with_config_Completed [OF run]
  obtain vueFiles fx1 where found: "env_findVueFiles e (componentsDir ?config) = Some vueFiles"
    and rfx: "rfx = fx1 @ write_index (env_readFile e) ?config
                (List.map_filter (index_entry_of (env_parse e)) vueFiles)"
    by blast
  let ?components = "map (\<lambda>file. the (index_entry_of (env_parse e) file))
                       (filter (\<lambda>file. \<not> skipped (env_parse e) file) vueFiles)"
  let ?fx' = "Log_running # snd (loadConfig (env_configFile e) default_config) @ fx1 @ cfx"
  have md: "fx = ?fx' @ [WriteFile (outDir ?config) ''index.md''
                          (indexMarkdown ?config content ?components),
                        Log_index_md (outDir ?config), Log_done]"
    if "docType ?config = ''md''"
    using that fx rfx custom by (simp add: write_index_def map_filter_index_entries)
  have html: "fx = ?fx' @ [WriteFile (outDir ?config) ''index.html''
                          (indexHtml ?config content ?components),
                        Log_index_html (outDir ?config), Log_done]"
    if "docType ?config \<noteq> ''md''"
    using that fx rfx custom by (simp add: write_index_def map_filter_index_entries)
  show ?thesis
    unfolding Let_def custom fst_conv
  proof (intro exI [of _ vueFiles] exI [of _ ?fx'] conjI impI)
    show "env_findVueFiles e (componentsDir ?config) = Some vueFiles"
      by (rule found)
    show "fx = ?fx' @ [WriteFile (outDir ?config) ''index.md''
                          (indexMarkdown ?config content ?components),
                        Log_index_md (outDir ?config), Log_done]"
      if "docType ?config = ''md''"
      using that by (rule md)
    show "fx = ?fx' @ [WriteFile (outDir ?config) ''index.html''
                          (indexHtml ?config content ?components),
                        Log_index_html (outDir ?config), Log_done]"
      if "docType ?config \<noteq> ''md''"
      using that by (rule html)
  qed (rule indexMarkdown_lines indexHtml_items)+
qed


theorem index_lists_processed_components_in_order_witness:
  \<open>\<exists>fx fx' gx gx'.
     main (listing_env (Parsed (empty_customConfig\<lparr>c_docType := Some ''md''\<rparr>))) =
       (fx, Completed) \<and>
     fx = fx' @
       [WriteFile ''dist/component-doc'' ''index.md''
          (''# Vue Component API Documentation\<newline>\<newline>'' @
           ''## '' @ zh_component_list @ ''\<newline>\<newline>'' @
           ''- [Button](Button.md)\<newline>'' @
           ''  A <b>button</b>\<newline>\<newline>'' @
           ''- [Alert](Alert.md)\<newline>'' @
           ''\<newline>''),
        Log_index_md ''dist/component-doc'', Log_done] \<and>
     main (listing_env NoFile) = (gx, Completed) \<and>
     gx = gx' @
       [WriteFile ''dist/component-doc'' ''index.html''
          (html_head_open @ ''Vue Component API Documentation'' @ index_html_style @
           ''Vue Component API Documentation'' @ index_html_after_heading @
           index_html_between @ index_html_list_open @
           ''<li class="component-item"><a href="Button.html" class="component-link">Button</a>'' @
           ''<p class="component-desc">A <b>button</b></p></li>\<newline>'' @
           ''<li class="component-item"><a href="Alert.html" class="component-link">Alert</a></li>'' @
           index_html_tail),
        Log_index_html ''dist/component-doc'', Log_done]\<close>
proof -
  let ?e = "listing_env (Parsed (empty_customConfig\<lparr>c_docType := Some ''md''\<rparr>))"
  let ?g = "listing_env NoFile"
  let ?cfg = "default_config\<lparr>docType := ''md''\<rparr>"
  let ?files = "[''/app/src/components/Button.vue'', ''/app/src/components/Broken.vue'',
                 ''/app/src/components/Alert.vue'']"
  let ?button = "\<lparr>entry_name = ''Button'', entry_description = ''A <b>button</b>''\<rparr>"
  let ?alert = "\<lparr>entry_name = ''Alert'', entry_description = []\<rparr>"
  have lc: "loadConfig (env_configFile ?e) default_config = (?cfg, [])"
    by (simp add: listing_env_def sample_env_def loadConfig_def assign_def empty_customConfig_def
        default_config_def)
  then have cfg: "fst (loadConfig (env_configFile ?e) default_config) = ?cfg" by simp
  have lg: "loadConfig (env_configFile ?g) default_config = (default_config, [])"
    by (simp add: listing_env_def sample_env_def loadConfig_def)
  then have cfgg: "fst (loadConfig (env_configFile ?g) default_config) = default_config" by simp
  have md: "docType ?cfg = ''md''" by simp
  have html: "docType default_config \<noteq> ''md''" by (simp add: default_config_def)
  obtain fx where m: "main ?e = (fx, Completed)"
    using lc listing_run [of "Parsed (empty_customConfig\<lparr>c_docType := Some ''md''\<rparr>)" ?cfg]
    by (auto simp add: main_run)
  obtain gx where g: "main ?g = (gx, Completed)"
    using lg listing_run [of NoFile default_config]
    by (auto simp add: main_run)
  have content: "fst (readCustomContent (env_readFile ?e) ?cfg) = []"
    by (simp add: readCustomContent_def default_config_def)
  have contentg: "fst (readCustomContent (env_readFile ?g) default_config) = []"
    by (simp add: readCustomContent_def default_config_def)
  have files: "env_findVueFiles ?e (componentsDir ?cfg) = Some ?files"
    and filesg: "env_findVueFiles ?g (componentsDir default_config) = Some ?files"
    by (simp_all add: listing_env_def)
  have comps: "map (\<lambda>file. the (index_entry_of (env_parse ?e) file))
                 (filter (\<lambda>file. \<not> skipped (env_parse ?e) file) ?files) = [?button, ?alert]"
    and compsg: "map (\<lambda>file. the (index_entry_of (env_parse ?g) file))
                 (filter (\<lambda>file. \<not> skipped (env_parse ?g) file) ?files) = [?button, ?alert]"
    by (simp_all add: listing_env_def skipped_def index_entry_of_def sample_parse_def truthy_def
        or_else_def sample_doc_def alert_doc_def)
  from index_lists_processed_components_in_order [OF m]
  obtain vueFiles fx' where found: "env_findVueFiles ?e (componentsDir ?cfg) = Some vueFiles"
    and index: "docType ?cfg = ''md'' \<longrightarrow>
          fx = fx' @
            [WriteFile (outDir ?cfg) ''index.md''
               (indexMarkdown ?cfg []
                  (map (\<lambda>file. the (index_entry_of (env_parse ?e) file))
                     (filter (\<lambda>file. \<not> skipped (env_parse ?e) file) vueFiles))),
             Log_index_md (outDir ?cfg), Log_done] \<and>
          indexMarkdown ?cfg []
            (map (\<lambda>file. the (index_entry_of (env_parse ?e) file))
               (filter (\<lambda>file. \<not> skipped (env_parse ?e) file) vueFiles)) =
            (''# '' @ docName ?cfg @ ''\<newline>\<newline>'' @
             (if docDescription ?cfg \<noteq> [] then docDescription ?cfg @ ''\<newline>\<newline>'' else []) @
             (if [] \<noteq> ([]::string) then [] @ ''\<newline>\<newline>'' else []) @
             ''## '' @ zh_component_list @ ''\<newline>\<newline>'') @
            concat (map (\<lambda>component.
               ''- ['' @ entry_name component @ ''](''  @ entry_name component @ ''.md)\<newline>'' @
               (if entry_description component \<noteq> []
                then ''  '' @ entry_description component @ ''\<newline>\<newline>''
                else ''\<newline>''))
               (map (\<lambda>file. the (index_entry_of (env_parse ?e) file))
                  (filter (\<lambda>file. \<not> skipped (env_parse ?e) file) vueFiles)))"
    unfolding Let_def cfg content by blast
  from found files have v: "vueFiles = ?files" by simp
  from index md
  have i1: "fx = fx' @
            [WriteFile (outDir ?cfg) ''index.md''
               (indexMarkdown ?cfg []
                  (map (\<lambda>file. the (index_entry_of (env_parse ?e) file))
                     (filter (\<lambda>file. \<not> skipped (env_parse ?e) file) vueFiles))),
             Log_index_md (outDir ?cfg), Log_done]"
    and i2: "indexMarkdown ?cfg []
            (map (\<lambda>file. the (index_entry_of (env_parse ?e) file))
               (filter (\<lambda>file. \<not> skipped (env_parse ?e) file) vueFiles)) =
            (''# '' @ docName ?cfg @ ''\<newline>\<newline>'' @
             (if docDescription ?cfg \<noteq> [] then docDescription ?cfg @ ''\<newline>\<newline>'' else []) @
             (if [] \<noteq> ([]::string) then [] @ ''\<newline>\<newline>'' else []) @
             ''## '' @ zh_component_list @ ''\<newline>\<newline>'') @
            concat (map (\<lambda>component.
               ''- ['' @ entry_name component @ ''](''  @ entry_name component @ ''.md)\<newline>'' @
               (if entry_description component \<noteq> []
                then ''  '' @ entry_description component @ ''\<newline>\<newline>''
                else ''\<newline>''))
               (map (\<lambda>file. the (index_entry_of (env_parse ?e) file))
                  (filter (\<lambda>file. \<not> skipped (env_parse ?e) file) vueFiles)))"
    by blast+
  have index_text: "indexMarkdown ?cfg [] [?button, ?alert] =
           ''# Vue Component API Documentation\<newline>\<newline>'' @
           ''## '' @ zh_component_list @ ''\<newline>\<newline>'' @
           ''- [Button](Button.md)\<newline>'' @ ''  A <b>button</b>\<newline>\<newline>'' @
           ''- [Alert](Alert.md)\<newline>'' @ ''\<newline>''"
    using i2 [unfolded v comps] by (simp add: default_config_def)
  have mdfx: "fx = fx' @
       [WriteFile ''dist/component-doc'' ''index.md''
          (''# Vue Component API Documentation\<newline>\<newline>'' @
           ''## '' @ zh_component_list @ ''\<newline>\<newline>'' @
           ''- [Button](Button.md)\<newline>'' @
           ''  A <b>button</b>\<newline>\<newline>'' @
           ''- [Alert](Alert.md)\<newline>'' @
           ''\<newline>''),
        Log_index_md ''dist/component-doc'', Log_done]"
    using i1 [unfolded v comps index_text] by (simp add: default_config_def)
  from index_lists_processed_components_in_order [OF g]
  obtain vueFilesg gx' where foundg: \<open>env_findVueFiles ?g (componentsDir default_config) = Some vueFilesg\<close>
    and indexg: \<open>docType default_config \<noteq> ''md'' \<longrightarrow>
          gx = gx' @
            [WriteFile (outDir default_config) ''index.html''
               (indexHtml default_config []
                  (map (\<lambda>file. the (index_entry_of (env_parse ?g) file))
                     (filter (\<lambda>file. \<not> skipped (env_parse ?g) file) vueFilesg))),
             Log_index_html (outDir default_config), Log_done] \<and>
          indexHtml default_config []
            (map (\<lambda>file. the (index_entry_of (env_parse ?g) file))
               (filter (\<lambda>file. \<not> skipped (env_parse ?g) file) vueFilesg)) =
            html_head_open @ docName default_config @ index_html_style @ docName default_config @
            index_html_after_heading @
            (if docDescription default_config \<noteq> []
             then ''<p class="doc-description">'' @ docDescription default_config @ ''</p>''
             else []) @
            index_html_between @ [] @ index_html_list_open @
            join ''\<newline>'' (map (\<lambda>component.
               ''<li class="component-item">'' @
               ''<a href="'' @ entry_name component @ ''.html" class="component-link">'' @
               entry_name component @ ''</a>'' @
               (if entry_description component \<noteq> []
                then ''<p class="component-desc">'' @ entry_description component @ ''</p>''
                else []) @
               ''</li>'')
               (map (\<lambda>file. the (index_entry_of (env_parse ?g) file))
                  (filter (\<lambda>file. \<not> skipped (env_parse ?g) file) vueFilesg))) @
            index_html_tail\<close>
    unfolding Let_def cfgg contentg by blast
  from foundg filesg have vg: "vueFilesg = ?files" by simp
  from indexg html
  have h1: \<open>gx = gx' @
            [WriteFile (outDir default_config) ''index.html''
               (indexHtml default_config []
                  (map (\<lambda>file. the (index_entry_of (env_parse ?g) file))
                     (filter (\<lambda>file. \<not> skipped (env_parse ?g) file) vueFilesg))),
             Log_index_html (outDir default_config), Log_done]\<close>
    and h2: \<open>indexHtml default_config []
            (map (\<lambda>file. the (index_entry_of (env_parse ?g) file))
               (filter (\<lambda>file. \<not> skipped (env_parse ?g) file) vueFilesg)) =
            html_head_open @ docName default_config @ index_html_style @ docName default_config @
            index_html_after_heading @
            (if docDescription default_config \<noteq> []
             then ''<p class="doc-description">'' @ docDescription default_config @ ''</p>''
             else []) @
            index_html_between @ [] @ index_html_list_open @
            join ''\<newline>'' (map (\<lambda>component.
               ''<li class="component-item">'' @
               ''<a href="'' @ entry_name component @ ''.html" class="component-link">'' @
               entry_name component @ ''</a>'' @
               (if entry_description component \<noteq> []
                then ''<p class="component-desc">'' @ entry_description component @ ''</p>''
                else []) @
               ''</li>'')
               (map (\<lambda>file. the (index_entry_of (env_parse ?g) file))
                  (filter (\<lambda>file. \<not> skipped (env_parse ?g) file) vueFilesg))) @
            index_html_tail\<close>
    by blast+
  have html_text: \<open>indexHtml default_config [] [?button, ?alert] =
           html_head_open @ ''Vue Component API Documentation'' @ index_html_style @
           ''Vue Component API Documentation'' @ index_html_after_heading @
           index_html_between @ index_html_list_open @
           ''<li class="component-item"><a href="Button.html" class="component-link">Button</a>'' @
           ''<p class="component-desc">A <b>button</b></p></li>\<newline>'' @
           ''<li class="component-item"><a href="Alert.html" class="component-link">Alert</a></li>'' @
           index_html_tail\<close>
    using h2 [unfolded vg compsg] by (simp add: default_config_def)
  have htmlfx: \<open>gx = gx' @
       [WriteFile ''dist/component-doc'' ''index.html''
          (html_head_open @ ''Vue Component API Documentation'' @ index_html_style @
           ''Vue Component API Documentation'' @ index_html_after_heading @
           index_html_between @ index_html_list_open @
           ''<li class="component-item"><a href="Button.html" class="component-link">Button</a>'' @
           ''<p class="component-desc">A <b>button</b></p></li>\<newline>'' @
           ''<li class="component-item"><a href="Alert.html" class="component-link">Alert</a></li>'' @
           index_html_tail),
        Log_index_html ''dist/component-doc'', Log_done]\<close>
    using h1 [unfolded vg compsg html_text] by (simp add: default_config_def)
  from m mdfx g htmlfx show ?thesis by blast
qed

subsection \<open>What a run depends on\<close>














end
